theory Spec2Isabelle
  imports Complex_Main "HOL-Library.Word"
begin

section \<open>The data of commands.c\<close>

text \<open>
  This theory embeds \<^verbatim>\<open>src/commands.c\<close> of i3: the criteria functions, the tiling
  resize, the migration-test helpers and the command handlers the verified properties
  are about. The structs, enums and collaborators that commands.c takes from
  \<^verbatim>\<open>all.h\<close> belong to other files of i3; their members are declared here
  as far as commands.c reads or writes them.

  Naming: a member \<^verbatim>\<open>f\<close> of \<^verbatim>\<open>struct Match\<close> is the field \<open>m_f\<close>, of
  \<^verbatim>\<open>struct Con\<close> the field \<open>c_f\<close>, of \<^verbatim>\<open>struct Rect\<close> the field \<open>r_f\<close>,
  of \<^verbatim>\<open>struct Window\<close> the field \<open>w_f\<close> and of \<^verbatim>\<open>struct stackframe\<close> the field
  \<open>sf_f\<close>, since record fields are global names in HOL.

  Log output (\<^verbatim>\<open>DLOG\<close>, \<^verbatim>\<open>LOG\<close>, \<^verbatim>\<open>ELOG\<close>, \<^verbatim>\<open>printf\<close>) and the release of memory
  (\<^verbatim>\<open>free\<close>) are not modelled. A read that only feeds a log line is modelled where
  the pointer it reads through can be \<^verbatim>\<open>focused\<close>, which may be \<^verbatim>\<open>NULL\<close>: in the
  handlers that apply \<^verbatim>\<open>HANDLE_EMPTY_MATCH\<close>. The candidates that \<^verbatim>\<open>cmd_criteria_init\<close>
  takes from \<^verbatim>\<open>all_cons\<close> refer to containers.
\<close>

subsection \<open>Pointers\<close>

text \<open>
  A \<^verbatim>\<open>Con *\<close> is an address; \<^verbatim>\<open>NULL\<close> is the address 0. The containers live in a
  store that maps the addresses in use to their structs.
\<close>

type_synonym con_ptr = nat

abbreviation NULL :: con_ptr where
  "NULL \<equiv> 0"

subsection \<open>Match\<close>

text \<open>
  \<^verbatim>\<open>struct regex\<close> carries the source text of the pattern next to its compiled form;
  commands.c only reads \<^verbatim>\<open>pattern\<close>. A \<^verbatim>\<open>struct regex *\<close> that may be \<^verbatim>\<open>NULL\<close>
  is a \<open>regex option\<close>.
\<close>

datatype regex = Regex (pattern: string)

text \<open>
  Modelled from the spec: the enums of \<^verbatim>\<open>struct Match\<close> are declared in a header that
  is not among the sources. \<open>dock\<close> and \<open>floating\<close> are tri-state (unset, or one of
  two settings); \<open>insert_where\<close> is an enum that commands.c only compares, kept as its
  integer value.
\<close>

datatype dock_t = M_DONTCHECK | M_NODOCK | M_DOCK_ANY

datatype floating_t = M_ANY | M_TILING | M_FLOATING

record Match =
  m_title :: "regex option"
  m_application :: "regex option"
  m_class :: "regex option"
  m_instance :: "regex option"
  m_mark :: "regex option"
  m_role :: "regex option"
  m_dock :: dock_t
  m_id :: "32 word"
  m_con_id :: con_ptr
  m_floating :: floating_t
  m_insert_where :: int

subsection \<open>Containers\<close>

datatype con_type = CT_ROOT | CT_OUTPUT | CT_CON | CT_FLOATING_CON | CT_WORKSPACE | CT_DOCKAREA

datatype layout_t = L_DEFAULT | L_STACKED | L_TABBED | L_DOCKAREA | L_OUTPUT

datatype orientation_t = NO_ORIENTATION | HORIZ | VERT

datatype fullscreen_mode_t = CF_NONE | CF_OUTPUT | CF_GLOBAL

record Rect =
  r_x :: "32 word"
  r_y :: "32 word"
  r_width :: "32 word"
  r_height :: "32 word"

record Window =
  w_id :: "32 word"
  w_class_class :: "string option"
  w_class_instance :: "string option"
  w_role :: "string option"
  w_name :: "string option"

text \<open>
  \<open>c_nodes_prev\<close> and \<open>c_nodes_next\<close> are what \<^verbatim>\<open>TAILQ_PREV(con, nodes_head, nodes)\<close>
  and \<^verbatim>\<open>TAILQ_NEXT(con, nodes)\<close> read: the sibling before and after the container
  in its parent's list, \<^verbatim>\<open>NULL\<close> at the ends. \<open>c_percent\<close> is a C \<^verbatim>\<open>double\<close>; the
  model computes with the real numbers it denotes (no rounding).
\<close>

record Con =
  c_type :: con_type
  c_parent :: con_ptr
  c_layout :: layout_t
  c_orientation :: orientation_t
  c_percent :: real
  c_rect :: Rect
  c_mark :: "string option"
  c_window :: "Window option"
  c_fullscreen_mode :: fullscreen_mode_t
  c_nodes_prev :: con_ptr
  c_nodes_next :: con_ptr

text \<open>
  The tree is what the collaborators own: the store of containers, the global
  \<^verbatim>\<open>focused\<close> and the list \<^verbatim>\<open>all_cons\<close>.
\<close>

record tree =
  cons :: "con_ptr \<Rightarrow> Con option"
  focused :: con_ptr
  all_cons :: "con_ptr list"

text \<open>Reading through a pointer fails on \<^verbatim>\<open>NULL\<close> and on an address not in use.\<close>

datatype error = Segfault

definition deref :: "tree \<Rightarrow> con_ptr \<Rightarrow> Con option" where
  "deref t p = (if p = NULL then None else cons t p)"

subsection \<open>The statics of commands.c\<close>

text \<open>
  A stackframe holds a copy of the match and the parameters of one handler call. The
  array \<^verbatim>\<open>args[10]\<close> with its fill count \<^verbatim>\<open>n_args\<close> is the list of its first
  \<^verbatim>\<open>n_args\<close> slots; a \<^verbatim>\<open>NULL\<close> parameter leaves its slot \<^verbatim>\<open>NULL\<close> (the frame comes
  from \<^verbatim>\<open>scalloc\<close>). No handler passes more than six parameters, the capacity of ten
  is not checked by the source.
\<close>

record stackframe =
  sf_match :: Match
  sf_args :: "string option list"

definition n_args :: "stackframe \<Rightarrow> nat" where
  "n_args f = length (sf_args f)"

text \<open>
  The state of a run: the tree, the file-static variables of commands.c (\<^verbatim>\<open>owindows\<close>,
  \<^verbatim>\<open>migration_test\<close>, the two stackframe queues, \<^verbatim>\<open>migration_pid\<close>), and the two
  pieces of the process environment that \<^verbatim>\<open>cmd_MIGRATION_start_nagbar\<close> changes: the
  child watchers installed in the event loop (each by the pid it watches) and the
  i3-nagbar processes that \<^verbatim>\<open>fork\<close> created and that have not exited.
\<close>

record state =
  tree :: tree
  owindows :: "con_ptr list"
  migration_test :: bool
  old_stackframes :: "stackframe list"
  new_stackframes :: "stackframe list"
  migration_pid :: int
  child_watchers :: "int list"
  nagbar_procs :: "int list"

section \<open>Migration testing\<close>

subsection \<open>Enabling and capturing\<close>

text \<open>
  \<^verbatim>\<open>while (!TAILQ_EMPTY(&q)) { current = TAILQ_FIRST(&q); ...; TAILQ_REMOVE(&q, current,
  stackframes); free(current); }\<close>: the queue loses its first frame until none is left.
\<close>

fun clear_stack :: "stackframe list \<Rightarrow> stackframe list" where
  "clear_stack [] = []"
| "clear_stack (current # rest) = clear_stack rest"

definition cmd_MIGRATION_enable :: "state \<Rightarrow> state" where
  "cmd_MIGRATION_enable s =
     (let s1 = s\<lparr>migration_test := True\<rparr>;
          s2 = s1\<lparr>old_stackframes := clear_stack (old_stackframes s1)\<rparr>
      in s2\<lparr>new_stackframes := clear_stack (new_stackframes s2)\<rparr>)"

definition cmd_MIGRATION_disable :: "state \<Rightarrow> state" where
  "cmd_MIGRATION_disable s = s\<lparr>migration_test := False\<rparr>"

text \<open>
  Modelled from the spec: \<^verbatim>\<open>match_copy\<close> is defined outside commands.c; a stackframe
  holds a snapshot of the match, so the copy has the fields of the original.
\<close>

definition match_copy :: "Match \<Rightarrow> Match" where
  "match_copy src = src"

text \<open>
  The variadic parameters up to \<^verbatim>\<open>last_parameter\<close> are the list \<open>params\<close>; a handler
  passes \<^verbatim>\<open>__FUNCTION__\<close> first.
\<close>

definition cmd_MIGRATION_save_new_parameters :: "Match \<Rightarrow> string option list \<Rightarrow> state \<Rightarrow> state" where
  "cmd_MIGRATION_save_new_parameters current_match params s =
     (let frame = \<lparr>sf_match = match_copy current_match, sf_args = params\<rparr>
      in s\<lparr>new_stackframes := new_stackframes s @ [frame]\<rparr>)"

definition cmd_MIGRATION_save_old_parameters :: "Match \<Rightarrow> string option list \<Rightarrow> state \<Rightarrow> state" where
  "cmd_MIGRATION_save_old_parameters current_match params s =
     (let frame = \<lparr>sf_match = match_copy current_match, sf_args = params\<rparr>
      in s\<lparr>old_stackframes := old_stackframes s @ [frame]\<rparr>)"

definition re_differ :: "regex option \<Rightarrow> regex option \<Rightarrow> bool" where
  "re_differ new old =
     ((new = None \<and> old \<noteq> None) \<or>
      (new \<noteq> None \<and> old = None) \<or>
      (new \<noteq> None \<and> old \<noteq> None \<and> pattern (the new) \<noteq> pattern (the old)))"

definition str_differ :: "string option \<Rightarrow> string option \<Rightarrow> bool" where
  "str_differ new old =
     ((new = None \<and> old \<noteq> None) \<or>
      (new \<noteq> None \<and> old = None) \<or>
      (new \<noteq> None \<and> old \<noteq> None \<and> the new \<noteq> the old))"

subsection \<open>The nagbar\<close>

text \<open>
  \<^verbatim>\<open>fork\<close> seen from the parent: the environment either refuses (\<open>r \<le> 0\<close> stands for
  that; \<^verbatim>\<open>fork\<close> returns -1) or creates the child \<open>r\<close>. The child's side, which
  \<^verbatim>\<open>exec_i3_utility\<close> replaces by i3-nagbar, is the new entry of \<open>nagbar_procs\<close>.
\<close>

definition fork :: "int \<Rightarrow> state \<Rightarrow> int \<times> state" where
  "fork r s = (if r \<le> 0 then (- 1, s) else (r, s\<lparr>nagbar_procs := r # nagbar_procs s\<rparr>))"

definition cmd_MIGRATION_start_nagbar :: "int \<Rightarrow> state \<Rightarrow> state" where
  "cmd_MIGRATION_start_nagbar r s =
     (if migration_pid s \<noteq> - 1 then s
      else
        (let (pid, s1) = fork r s;
             s2 = s1\<lparr>migration_pid := pid\<rparr>
         in if migration_pid s2 = - 1 then s2
            else s2\<lparr>child_watchers := migration_pid s2 # child_watchers s2\<rparr>))"

text \<open>
  The status of an exited child: \<^verbatim>\<open>WIFEXITED\<close> holds for \<open>Exited code\<close>, where
  \<^verbatim>\<open>WEXITSTATUS\<close> is \<open>code\<close>, and fails for a child that a signal ended.
\<close>

datatype rstatus = Exited int | Signaled int

text \<open>
  \<^verbatim>\<open>nagbar_exited\<close> is the callback of the watcher on pid \<open>p\<close>:
  \<^verbatim>\<open>ev_child_stop\<close> takes the watcher out of the loop; only a normal exit resets
  \<^verbatim>\<open>migration_pid\<close>.
\<close>

definition nagbar_exited :: "int \<Rightarrow> rstatus \<Rightarrow> state \<Rightarrow> state" where
  "nagbar_exited p st s =
     (let s1 = s\<lparr>child_watchers := remove1 p (child_watchers s)\<rparr>
      in case st of
           Signaled sig \<Rightarrow> s1
         | Exited exitcode \<Rightarrow> s1\<lparr>migration_pid := - 1\<rparr>)"

subsection \<open>Validation\<close>

text \<open>
  What \<^verbatim>\<open>cmd_MIGRATION_validate\<close> logs before it returns: one constructor per
  \<^verbatim>\<open>ELOG("FAILED, ...")\<close> line, with the numbers the line prints, and \<open>OK\<close> for
  \<^verbatim>\<open>DLOG("OK")\<close>.
\<close>

datatype report =
    OK
  | FAILED_count nat nat
  | FAILED_match nat
  | FAILED_n_args nat
  | FAILED_args nat nat

definition match_differ :: "Match \<Rightarrow> Match \<Rightarrow> bool" where
  "match_differ new old =
     (m_dock new \<noteq> m_dock old \<or>
      m_id new \<noteq> m_id old \<or>
      m_con_id new \<noteq> m_con_id old \<or>
      m_floating new \<noteq> m_floating old \<or>
      m_insert_where new \<noteq> m_insert_where old \<or>
      re_differ (m_title new) (m_title old) \<or>
      re_differ (m_application new) (m_application old) \<or>
      re_differ (m_class new) (m_class old) \<or>
      re_differ (m_instance new) (m_instance old) \<or>
      re_differ (m_mark new) (m_mark old) \<or>
      re_differ (m_role new) (m_role old))"

text \<open>
  \<^verbatim>\<open>for (int j = 0; j < new_frame->n_args; j++)\<close>, run from slot \<open>j\<close> on over the
  slots that are left: the index of the first pair that \<^verbatim>\<open>str_differ\<close> tells apart.
  The loop runs after the check that both frames hold the same number of parameters.
\<close>

fun args_differ_from :: "nat \<Rightarrow> string option list \<Rightarrow> string option list \<Rightarrow> nat option" where
  "args_differ_from j (new # news) (old # olds) =
     (if str_differ new old then Some j else args_differ_from (Suc j) news olds)"
| "args_differ_from j news olds = None"

text \<open>
  \<^verbatim>\<open>for (int i = 0; i < new_count; i++)\<close>, run from frame \<open>i\<close> on over the frames
  that are left of both queues. The loop runs after the check that both queues have
  the same length, so the two pointers reach the end together.
\<close>

fun compare_frames :: "nat \<Rightarrow> stackframe list \<Rightarrow> stackframe list \<Rightarrow> report" where
  "compare_frames i (new_frame # news) (old_frame # olds) =
     (if match_differ (sf_match new_frame) (sf_match old_frame) then FAILED_match i
      else if n_args new_frame \<noteq> n_args old_frame then FAILED_n_args i
      else (case args_differ_from 0 (sf_args new_frame) (sf_args old_frame) of
              Some j \<Rightarrow> FAILED_args j i
            | None \<Rightarrow> compare_frames (Suc i) news olds))"
| "compare_frames i news olds = OK"

definition validate_report :: "state \<Rightarrow> report" where
  "validate_report s =
     (let new_count = length (new_stackframes s);
          old_count = length (old_stackframes s)
      in if new_count \<noteq> old_count then FAILED_count new_count old_count
         else compare_frames 0 (new_stackframes s) (old_stackframes s))"

text \<open>
  Every \<^verbatim>\<open>FAILED\<close> branch calls \<^verbatim>\<open>cmd_MIGRATION_start_nagbar\<close> and returns; \<open>r\<close> is
  what the environment answers should that call reach \<^verbatim>\<open>fork\<close>.
\<close>

definition cmd_MIGRATION_validate :: "int \<Rightarrow> state \<Rightarrow> report \<times> state" where
  "cmd_MIGRATION_validate r s =
     (case validate_report s of
        OK \<Rightarrow> (OK, s)
      | failed \<Rightarrow> (failed, cmd_MIGRATION_start_nagbar r s))"

section \<open>The collaborators\<close>

text \<open>
  commands.c calls into the tree, the regex engine and the matcher, which other files
  of i3 define. The model takes them as parameters: a handler runs against any
  implementation \<open>ext\<close> of them, and a theorem about a handler holds for every
  implementation. They act on the tree only: \<^verbatim>\<open>owindows\<close> and the migration
  variables are static to commands.c.

  The floating-point arithmetic of the platform is a parameter too. A \<^verbatim>\<open>double\<close> or
  \<^verbatim>\<open>float\<close> is the real number it holds; \<open>to_double\<close> rounds the exact result of an
  operation on doubles (and a decimal constant of the source) to the double that the
  operation yields, and \<open>to_float\<close> rounds to \<^verbatim>\<open>float\<close>: it is what passing a
  \<^verbatim>\<open>double\<close> for a \<^verbatim>\<open>float\<close> parameter does, and what an operation on floats does to
  its exact result. Infinities and NaN are not values of the model.
\<close>

record ext =
  regex_matches :: "regex \<Rightarrow> string \<Rightarrow> bool"
  match_matches_window :: "Match \<Rightarrow> Window \<Rightarrow> bool"
  con_inside_floating :: "tree \<Rightarrow> con_ptr \<Rightarrow> con_ptr"
  con_num_children :: "tree \<Rightarrow> con_ptr \<Rightarrow> int"
  con_get_workspace :: "tree \<Rightarrow> con_ptr \<Rightarrow> con_ptr"
  con_focus :: "con_ptr \<Rightarrow> tree \<Rightarrow> tree"
  workspace_show :: "con_ptr \<Rightarrow> tree \<Rightarrow> tree"
  con_set_layout :: "con_ptr \<Rightarrow> layout_t \<Rightarrow> tree \<Rightarrow> tree"
  con_toggle_fullscreen :: "con_ptr \<Rightarrow> fullscreen_mode_t \<Rightarrow> tree \<Rightarrow> tree"
  toggle_floating_mode :: "con_ptr \<Rightarrow> bool \<Rightarrow> tree \<Rightarrow> tree"
  floating_enable :: "con_ptr \<Rightarrow> bool \<Rightarrow> tree \<Rightarrow> tree"
  floating_disable :: "con_ptr \<Rightarrow> bool \<Rightarrow> tree \<Rightarrow> tree"
  scratchpad_move :: "con_ptr \<Rightarrow> tree \<Rightarrow> tree"
  tree_render :: "tree \<Rightarrow> tree"
  to_double :: "real \<Rightarrow> real"
  to_float :: "real \<Rightarrow> real"

text \<open>
  Modelled from the spec: \<^verbatim>\<open>match_is_empty\<close> and \<^verbatim>\<open>match_init\<close> are defined outside
  commands.c. A match with all predicates absent is the empty match; \<open>insert_where\<close>
  says where a new container would attach and filters nothing. A fresh match is empty.
\<close>

definition match_is_empty :: "Match \<Rightarrow> bool" where
  "match_is_empty m =
     (m_title m = None \<and> m_mark m = None \<and> m_application m = None \<and>
      m_class m = None \<and> m_instance m = None \<and> m_role m = None \<and>
      m_id m = 0 \<and> m_con_id m = NULL \<and> m_dock m = M_DONTCHECK \<and> m_floating m = M_ANY)"

definition match_init :: Match where
  "match_init =
     \<lparr>m_title = None, m_application = None, m_class = None, m_instance = None,
      m_mark = None, m_role = None, m_dock = M_DONTCHECK, m_id = 0, m_con_id = NULL,
      m_floating = M_ANY, m_insert_where = 0\<rparr>"

text \<open>The replies, as the string literals of the source (the failure key is spelled so).\<close>

definition reply_success :: string where
  \<open>reply_success = ''{"success": true}''\<close>

definition reply_sucess_false :: string where
  \<open>reply_sucess_false = ''{"sucess": false}''\<close>

definition reply_focus_unspecified :: string where
  \<open>reply_focus_unspecified =
     ''{"success":false, "error":"You have to specify which window/container should be focused"}''\<close>

section \<open>Criteria\<close>

text \<open>
  \<^verbatim>\<open>HANDLE_EMPTY_MATCH\<close>: with an empty match, \<^verbatim>\<open>owindows\<close> becomes the one-element
  list of \<^verbatim>\<open>focused\<close>.
\<close>

definition HANDLE_EMPTY_MATCH :: "Match \<Rightarrow> state \<Rightarrow> state" where
  "HANDLE_EMPTY_MATCH current_match s =
     (if match_is_empty current_match then s\<lparr>owindows := [focused (tree s)]\<rparr> else s)"

text \<open>
  \<^verbatim>\<open>cmd_criteria_init\<close> resets the match the pointer refers to and copies \<^verbatim>\<open>all_cons\<close>
  into \<^verbatim>\<open>owindows\<close>; the model returns the match next to the state.
\<close>

definition cmd_criteria_init :: "state \<Rightarrow> Match \<times> state" where
  "cmd_criteria_init s = (match_init, s\<lparr>owindows := all_cons (tree s)\<rparr>)"

text \<open>
  The three arms of the \<^verbatim>\<open>if\<close> / \<^verbatim>\<open>else if\<close> / \<^verbatim>\<open>else\<close> in the loop of
  \<^verbatim>\<open>cmd_criteria_match_windows\<close>, and the arm that a candidate takes. The condition
  of the second arm is \<^verbatim>\<open>current_match->mark != NULL && current->con->mark != NULL &&
  regex_matches(current_match->mark, current->con->mark)\<close>, read left to right.
\<close>

datatype arm = By_con_id | By_mark | By_window

definition criteria_arm :: "ext \<Rightarrow> Match \<Rightarrow> tree \<Rightarrow> con_ptr \<Rightarrow> error + arm" where
  "criteria_arm e current_match t con =
     (if m_con_id current_match \<noteq> NULL then Inr By_con_id
      else (case m_mark current_match of
              None \<Rightarrow> Inr By_window
            | Some re \<Rightarrow>
                (case deref t con of
                   None \<Rightarrow> Inl Segfault
                 | Some c \<Rightarrow>
                     (case c_mark c of
                        None \<Rightarrow> Inr By_window
                      | Some mark \<Rightarrow>
                          if regex_matches e re mark then Inr By_mark else Inr By_window))))"

text \<open>Whether the candidate is inserted into the new \<^verbatim>\<open>owindows\<close>.\<close>

definition owindow_matches :: "ext \<Rightarrow> Match \<Rightarrow> tree \<Rightarrow> con_ptr \<Rightarrow> error + bool" where
  "owindow_matches e current_match t con =
     (case criteria_arm e current_match t con of
        Inl err \<Rightarrow> Inl err
      | Inr By_con_id \<Rightarrow> Inr (m_con_id current_match = con)
      | Inr By_mark \<Rightarrow> Inr True
      | Inr By_window \<Rightarrow>
          (case deref t con of
             None \<Rightarrow> Inl Segfault
           | Some c \<Rightarrow>
               (case c_window c of
                  None \<Rightarrow> Inr False
                | Some w \<Rightarrow> Inr (match_matches_window e current_match w))))"

text \<open>
  The loop over the old list: the candidates that match are appended to the new list
  in their order.
\<close>

fun match_loop :: "ext \<Rightarrow> Match \<Rightarrow> tree \<Rightarrow> con_ptr list \<Rightarrow> error + con_ptr list" where
  "match_loop e current_match t [] = Inr []"
| "match_loop e current_match t (con # old) =
     (case owindow_matches e current_match t con of
        Inl err \<Rightarrow> Inl err
      | Inr keep \<Rightarrow>
          (case match_loop e current_match t old of
             Inl err \<Rightarrow> Inl err
           | Inr rest \<Rightarrow> Inr (if keep then con # rest else rest)))"

definition cmd_criteria_match_windows :: "ext \<Rightarrow> Match \<Rightarrow> state \<Rightarrow> error + state" where
  "cmd_criteria_match_windows e current_match s =
     (let params = [Some ''cmd_criteria_match_windows''];
          s1 = (if migration_test s
                then cmd_MIGRATION_save_new_parameters current_match params s
                else cmd_MIGRATION_save_old_parameters current_match params s)
      in case match_loop e current_match (tree s1) (owindows s1) of
           Inl err \<Rightarrow> Inl err
         | Inr matching \<Rightarrow> Inr (s1\<lparr>owindows := matching\<rparr>))"

section \<open>The tiling resize\<close>

text \<open>
  \<^verbatim>\<open>static bool definitelyGreaterThan(float a, float b, float epsilon)\<close>: the three
  arguments are narrowed to \<^verbatim>\<open>float\<close>; \<^verbatim>\<open>a - b\<close> is a subtraction of floats;
  \<^verbatim>\<open>fabs\<close> takes and returns a \<^verbatim>\<open>double\<close> (a float becomes the same double), so the
  product with \<^verbatim>\<open>epsilon\<close> is a product of doubles. \<^verbatim>\<open>DBL_EPSILON\<close> is the number
  1 / 2 ^ 52 of \<^verbatim>\<open>float.h\<close>.
\<close>

definition DBL_EPSILON :: real where
  "DBL_EPSILON = 1 / 2 ^ 52"

definition definitelyGreaterThan :: "ext \<Rightarrow> real \<Rightarrow> real \<Rightarrow> real \<Rightarrow> bool" where
  "definitelyGreaterThan e a0 b0 epsilon0 =
     (let a = to_float e a0; b = to_float e b0; epsilon = to_float e epsilon0
      in to_float e (a - b) > to_double e ((if \<bar>a\<bar> < \<bar>b\<bar> then \<bar>b\<bar> else \<bar>a\<bar>) * epsilon))"

text \<open>
  What the theorems about the floor ask of the rounding: it keeps the order and it
  keeps 0. Every rounding mode of IEEE 754 does.
\<close>

definition rounding_monotone :: "ext \<Rightarrow> bool" where
  "rounding_monotone e =
     (mono (to_double e) \<and> to_double e 0 = 0 \<and> mono (to_float e) \<and> to_float e 0 = 0)"

text \<open>
  \<^verbatim>\<open>atoi\<close> of the C library is \<^verbatim>\<open>(int) strtol(nptr, NULL, 10)\<close>: white space, an
  optional sign, then decimal digits up to the first other character; 0 when there is
  no digit. \<^verbatim>\<open>strtol\<close> answers a 64-bit \<^verbatim>\<open>long\<close> and stops at \<^verbatim>\<open>LONG_MIN\<close> and
  \<^verbatim>\<open>LONG_MAX\<close>; the conversion to \<^verbatim>\<open>int\<close> keeps the low 32 bits. An \<^verbatim>\<open>int\<close> is a
  32-bit word, read as a signed number by \<open>sint\<close>.
\<close>

definition isspace :: "char \<Rightarrow> bool" where
  "isspace c = (of_char c \<in> {32, 9, 10, 11, 12, 13 :: nat})"

definition isdigit :: "char \<Rightarrow> bool" where
  "isdigit c = (48 \<le> (of_char c :: nat) \<and> (of_char c :: nat) \<le> 57)"

fun digits_value :: "int \<Rightarrow> string \<Rightarrow> int" where
  "digits_value acc [] = acc"
| "digits_value acc (c # cs) =
     (if isdigit c then digits_value (acc * 10 + (of_char c - 48)) cs else acc)"

definition strtol :: "string \<Rightarrow> int" where
  "strtol nptr =
     (let v = (case dropWhile isspace nptr of
                 [] \<Rightarrow> 0
               | c # cs \<Rightarrow>
                   if c = CHR ''-'' then - digits_value 0 cs
                   else if c = CHR ''+'' then digits_value 0 cs
                   else digits_value 0 (c # cs))
      in if v < - (2 ^ 63) then - (2 ^ 63) else if 2 ^ 63 - 1 < v then 2 ^ 63 - 1 else v)"

definition atoi :: "string \<Rightarrow> 32 word" where
  "atoi nptr = word_of_int (strtol nptr)"

text \<open>
  \<^verbatim>\<open>while (current->parent->layout == L_STACKED || current->parent->layout == L_TABBED)
  current = current->parent;\<close> The walk up the tree ends at the first container whose
  parent is neither stacked nor tabbed, fails where it reads through a pointer that
  refers to no container, and does not return (\<open>None\<close>) where the parent pointers
  run in a cycle of stacked or tabbed containers.
\<close>

partial_function (option) skip_stacked_tabbed :: "tree \<Rightarrow> con_ptr \<Rightarrow> (error + con_ptr) option" where
  "skip_stacked_tabbed t current =
     (case deref t current of
        None \<Rightarrow> Some (Inl Segfault)
      | Some c \<Rightarrow>
          (case deref t (c_parent c) of
             None \<Rightarrow> Some (Inl Segfault)
           | Some p \<Rightarrow>
               if c_layout p = L_STACKED \<or> c_layout p = L_TABBED
               then skip_stacked_tabbed t (c_parent c)
               else Some (Inr current)))"

text \<open>
  \<^verbatim>\<open>while (current->type != CT_WORKSPACE && current->type != CT_FLOATING_CON &&
  current->parent->orientation != search_orientation) current = current->parent;\<close>
\<close>

partial_function (option) find_orientation :: "tree \<Rightarrow> orientation_t \<Rightarrow> con_ptr \<Rightarrow> (error + con_ptr) option" where
  "find_orientation t search_orientation current =
     (case deref t current of
        None \<Rightarrow> Some (Inl Segfault)
      | Some c \<Rightarrow>
          if c_type c \<noteq> CT_WORKSPACE \<and> c_type c \<noteq> CT_FLOATING_CON
          then (case deref t (c_parent c) of
                  None \<Rightarrow> Some (Inl Segfault)
                | Some p \<Rightarrow>
                    if c_orientation p \<noteq> search_orientation
                    then find_orientation t search_orientation (c_parent c)
                    else Some (Inr current))
          else Some (Inr current))"

text \<open>Reading and writing \<^verbatim>\<open>con->percent\<close> of a container that is in the store.\<close>

definition percent_of :: "tree \<Rightarrow> con_ptr \<Rightarrow> real" where
  "percent_of t p = (case cons t p of None \<Rightarrow> 0 | Some c \<Rightarrow> c_percent c)"

definition set_percent :: "con_ptr \<Rightarrow> real \<Rightarrow> tree \<Rightarrow> tree" where
  "set_percent p v t =
     (case cons t p of
        None \<Rightarrow> t
      | Some c \<Rightarrow> t\<lparr>cons := (cons t)(p \<mapsto> c\<lparr>c_percent := v\<rparr>)\<rparr>)"

text \<open>
  The end of the tiling branch, from \<^verbatim>\<open>LOG("other->percent = %f\n", other->percent)\<close>
  to the end of the \<^verbatim>\<open>else\<close>: the two percentages are written one after the other,
  each statement reading the store the statement before it left. \<open>percentage\<close> is the
  default \<^verbatim>\<open>1.0 / children\<close>; \<^verbatim>\<open>(double)ppt / 100.0\<close> is a division of doubles, the
  sum and the difference are operations on doubles, and \<^verbatim>\<open>0.05\<close> is a constant of type
  \<^verbatim>\<open>double\<close>.
\<close>

definition resize_percents :: "ext \<Rightarrow> real \<Rightarrow> 32 word \<Rightarrow> con_ptr \<Rightarrow> con_ptr \<Rightarrow> tree \<Rightarrow> error + tree" where
  "resize_percents e percentage ppt current other t =
     (if deref t other = None \<or> deref t current = None then Inl Segfault
      else
        (let t1 = (if percent_of t current = 0.0 then set_percent current percentage t else t);
             t2 = (if percent_of t1 other = 0.0 then set_percent other percentage t1 else t1);
             new_current_percent =
               to_double e (percent_of t2 current + to_double e (real_of_int (sint ppt) / 100.0));
             new_other_percent =
               to_double e (percent_of t2 other - to_double e (real_of_int (sint ppt) / 100.0))
         in if definitelyGreaterThan e new_current_percent (to_double e 0.05) DBL_EPSILON \<and>
               definitelyGreaterThan e new_other_percent (to_double e 0.05) DBL_EPSILON
            then
              (let t3 = set_percent current
                          (to_double e (percent_of t2 current +
                                        to_double e (real_of_int (sint ppt) / 100.0))) t2;
                   t4 = set_percent other
                          (to_double e (percent_of t3 other -
                                        to_double e (real_of_int (sint ppt) / 100.0))) t3
               in Inr t4)
            else Inr t2))"

text \<open>
  The floating branch: \<^verbatim>\<open>rect\<close> has unsigned 32-bit members, \<open>px\<close> is an \<^verbatim>\<open>int\<close>,
  which the operation converts to the unsigned number with the same bits.
\<close>

definition resize_floating :: "string \<Rightarrow> 32 word \<Rightarrow> Rect \<Rightarrow> Rect" where
  "resize_floating direction px rect =
     (if direction = ''up''
      then rect\<lparr>r_y := r_y rect - px, r_height := r_height rect + px\<rparr>
      else if direction = ''down''
      then rect\<lparr>r_height := r_height rect + px\<rparr>
      else if direction = ''left''
      then rect\<lparr>r_x := r_x rect - px, r_width := r_width rect + px\<rparr>
      else rect\<lparr>r_width := r_width rect + px\<rparr>)"

text \<open>
  The tiling branch of \<^verbatim>\<open>cmd_resize\<close> on the tree, up to the call of \<^verbatim>\<open>tree_render\<close>:
  either the reply of an early \<^verbatim>\<open>return\<close> (with the tree as it is then) or the tree
  to render. \<open>None\<close>: one of the two walks does not return. \<^verbatim>\<open>children\<close> counts the
  container itself, so it is not 0; where a collaborator answers 0, C divides to
  infinity, which the model has not.
\<close>

definition resize_tiling :: "ext \<Rightarrow> string \<Rightarrow> 32 word \<Rightarrow> tree \<Rightarrow> (error + (string option \<times> tree)) option" where
  "resize_tiling e direction ppt t =
     (case skip_stacked_tabbed t (focused t) of
        None \<Rightarrow> None
      | Some (Inl err) \<Rightarrow> Some (Inl err)
      | Some (Inr current1) \<Rightarrow>
          (let search_orientation =
                 (if direction = ''left'' \<or> direction = ''right'' then HORIZ else VERT)
           in case find_orientation t search_orientation current1 of
                None \<Rightarrow> None
              | Some (Inl err) \<Rightarrow> Some (Inl err)
              | Some (Inr current) \<Rightarrow>
                  (case deref t current of
                     None \<Rightarrow> Some (Inl Segfault)
                   | Some c \<Rightarrow>
                       (let children = con_num_children e t (c_parent c);
                            percentage = to_double e (1.0 / real_of_int children)
                        in case deref t (c_parent c) of
                             None \<Rightarrow> Some (Inl Segfault)
                           | Some p \<Rightarrow>
                               (let orientation = c_orientation p
                                in if (orientation = HORIZ \<and>
                                         (direction = ''up'' \<or> direction = ''down'')) \<or>
                                      (orientation = VERT \<and>
                                         (direction = ''left'' \<or> direction = ''right''))
                                   then Some (Inr (Some reply_sucess_false, t))
                                   else
                                     (let other =
                                            (if direction = ''up'' \<or> direction = ''left''
                                             then c_nodes_prev c else c_nodes_next c)
                                      in if other = NULL
                                         then Some (Inr (Some reply_sucess_false, t))
                                         else (case resize_percents e percentage ppt current other t of
                                                 Inl err \<Rightarrow> Some (Inl err)
                                               | Inr t' \<Rightarrow> Some (Inr (None, t')))))))))"

text \<open>
  \<^verbatim>\<open>cmd_resize\<close>. \<^verbatim>\<open>MIGRATION_init\<close> comes first in every handler: while the migration
  test captures, the handler saves its parameters on the new stack and returns \<^verbatim>\<open>NULL\<close>;
  otherwise it saves them on the old stack and runs.
\<close>

definition cmd_resize :: "ext \<Rightarrow> Match \<Rightarrow> string \<Rightarrow> string \<Rightarrow> string \<Rightarrow> string \<Rightarrow> state \<Rightarrow> (error + (string option \<times> state)) option" where
  "cmd_resize e current_match way direction resize_px resize_ppt s =
     (let params = [Some ''cmd_resize'', Some way, Some direction, Some resize_px, Some resize_ppt]
      in if migration_test s
         then Some (Inr (None, cmd_MIGRATION_save_new_parameters current_match params s))
         else
           (let s1 = cmd_MIGRATION_save_old_parameters current_match params s;
                px = (if way = ''shrink'' then atoi resize_px * - 1 else atoi resize_px);
                ppt = (if way = ''shrink'' then atoi resize_ppt * - 1 else atoi resize_ppt);
                t = tree s1;
                floating_con = con_inside_floating e t (focused t)
            in if floating_con \<noteq> NULL
               then (case deref t floating_con of
                       None \<Rightarrow> Some (Inl Segfault)
                     | Some fc \<Rightarrow>
                         (let t' = t\<lparr>cons := (cons t)(floating_con \<mapsto>
                                       fc\<lparr>c_rect := resize_floating direction px (c_rect fc)\<rparr>)\<rparr>
                          in Some (Inr (Some reply_success, s1\<lparr>tree := tree_render e t'\<rparr>))))
               else (case resize_tiling e direction ppt t of
                       None \<Rightarrow> None
                     | Some (Inl err) \<Rightarrow> Some (Inl err)
                     | Some (Inr (Some reply, t')) \<Rightarrow> Some (Inr (Some reply, s1\<lparr>tree := t'\<rparr>))
                     | Some (Inr (None, t')) \<Rightarrow>
                         Some (Inr (Some reply_success, s1\<lparr>tree := tree_render e t'\<rparr>)))))"

section \<open>Handlers that work on the matched containers\<close>

text \<open>
  \<^verbatim>\<open>TAILQ_FOREACH(current, &owindows, owindows)\<close> with a body that calls one collaborator
  on \<^verbatim>\<open>current->con\<close> is a left fold over \<^verbatim>\<open>owindows\<close>.
\<close>

definition foreach_owindow :: "(con_ptr \<Rightarrow> tree \<Rightarrow> tree) \<Rightarrow> con_ptr list \<Rightarrow> tree \<Rightarrow> tree" where
  "foreach_owindow body ows t = foldl (\<lambda>t' con. body con t') t ows"

text \<open>
  In the handlers that apply \<^verbatim>\<open>HANDLE_EMPTY_MATCH\<close> the body of the loop starts with
  a log line that prints \<^verbatim>\<open>current->con->name\<close>: a read through \<^verbatim>\<open>current->con\<close>,
  in the tree as the rounds before left it, that fails where the pointer refers to no
  container.
\<close>

fun foreach_logged :: "(con_ptr \<Rightarrow> tree \<Rightarrow> tree) \<Rightarrow> con_ptr list \<Rightarrow> tree \<Rightarrow> error + tree" where
  "foreach_logged body [] t = Inr t"
| "foreach_logged body (con # rest) t =
     (case deref t con of
        None \<Rightarrow> Inl Segfault
      | Some c \<Rightarrow> foreach_logged body rest (body con t))"

definition cmd_fullscreen :: "ext \<Rightarrow> Match \<Rightarrow> string option \<Rightarrow> state \<Rightarrow> error + (string option \<times> state)" where
  "cmd_fullscreen e current_match fullscreen_mode0 s =
     (let fullscreen_mode = (case fullscreen_mode0 of None \<Rightarrow> ''output'' | Some str \<Rightarrow> str);
          params = [Some ''cmd_fullscreen'', Some fullscreen_mode]
      in if migration_test s
         then Inr (None, cmd_MIGRATION_save_new_parameters current_match params s)
         else
           (let s1 = cmd_MIGRATION_save_old_parameters current_match params s;
                s2 = HANDLE_EMPTY_MATCH current_match s1
            in case foreach_logged
                      (\<lambda>con. con_toggle_fullscreen e con
                                (if fullscreen_mode = ''global'' then CF_GLOBAL else CF_OUTPUT))
                      (owindows s2) (tree s2) of
                 Inl err \<Rightarrow> Inl err
               | Inr t \<Rightarrow> Inr (Some reply_success, s2\<lparr>tree := tree_render e t\<rparr>)))"

definition cmd_floating :: "ext \<Rightarrow> Match \<Rightarrow> string \<Rightarrow> state \<Rightarrow> error + (string option \<times> state)" where
  "cmd_floating e current_match floating_mode s =
     (let params = [Some ''cmd_floating'', Some floating_mode]
      in if migration_test s
         then Inr (None, cmd_MIGRATION_save_new_parameters current_match params s)
         else
           (let s1 = cmd_MIGRATION_save_old_parameters current_match params s;
                s2 = HANDLE_EMPTY_MATCH current_match s1
            in case foreach_logged
                      (\<lambda>con. if floating_mode = ''toggle'' then toggle_floating_mode e con False
                             else if floating_mode = ''enable'' then floating_enable e con False
                             else floating_disable e con False)
                      (owindows s2) (tree s2) of
                 Inl err \<Rightarrow> Inl err
               | Inr t \<Rightarrow> Inr (Some reply_success, s2\<lparr>tree := tree_render e t\<rparr>)))"

definition cmd_move_scratchpad :: "ext \<Rightarrow> Match \<Rightarrow> state \<Rightarrow> error + (string option \<times> state)" where
  "cmd_move_scratchpad e current_match s =
     (let params = [Some ''cmd_move_scratchpad'']
      in if migration_test s
         then Inr (None, cmd_MIGRATION_save_new_parameters current_match params s)
         else
           (let s1 = cmd_MIGRATION_save_old_parameters current_match params s;
                s2 = HANDLE_EMPTY_MATCH current_match s1
            in case foreach_logged (scratchpad_move e) (owindows s2) (tree s2) of
                 Inl err \<Rightarrow> Inl err
               | Inr t \<Rightarrow> Inr (Some reply_success, s2\<lparr>tree := tree_render e t\<rparr>)))"

text \<open>
  \<^verbatim>\<open>cmd_layout\<close> does not use \<^verbatim>\<open>HANDLE_EMPTY_MATCH\<close>: it asks \<^verbatim>\<open>match_is_empty\<close> itself
  and reads \<^verbatim>\<open>focused->parent\<close>. Its loop runs over candidates from \<^verbatim>\<open>all_cons\<close>
  only.
\<close>

definition requested_layout :: "string \<Rightarrow> layout_t" where
  "requested_layout layout_str =
     (if layout_str = ''default'' then L_DEFAULT
      else if layout_str = ''stacked'' then L_STACKED
      else L_TABBED)"

definition cmd_layout :: "ext \<Rightarrow> Match \<Rightarrow> string \<Rightarrow> state \<Rightarrow> error + (string option \<times> state)" where
  "cmd_layout e current_match layout_str0 s =
     (let layout_str = (if layout_str0 = ''stacking'' then ''stacked'' else layout_str0);
          params = [Some ''cmd_layout'', Some layout_str]
      in if migration_test s
         then Inr (None, cmd_MIGRATION_save_new_parameters current_match params s)
         else
           (let s1 = cmd_MIGRATION_save_old_parameters current_match params s;
                layout = requested_layout layout_str
            in if match_is_empty current_match
               then (case deref (tree s1) (focused (tree s1)) of
                       None \<Rightarrow> Inl Segfault
                     | Some f \<Rightarrow>
                         Inr (Some reply_success,
                              s1\<lparr>tree := tree_render e (con_set_layout e (c_parent f) layout (tree s1))\<rparr>))
               else Inr (Some reply_success,
                         s1\<lparr>tree := tree_render e
                                      (foreach_owindow (\<lambda>con. con_set_layout e con layout)
                                         (owindows s1) (tree s1))\<rparr>)))"

text \<open>
  The guard \<^verbatim>\<open>focused && focused->type != CT_WORKSPACE && focused->fullscreen_mode !=
  CF_NONE\<close> of the focus handlers.
\<close>

definition in_fullscreen :: "tree \<Rightarrow> error + bool" where
  "in_fullscreen t =
     (if focused t = NULL then Inr False
      else (case cons t (focused t) of
              None \<Rightarrow> Inl Segfault
            | Some f \<Rightarrow> Inr (c_type f \<noteq> CT_WORKSPACE \<and> c_fullscreen_mode f \<noteq> CF_NONE)))"

text \<open>
  The loop of \<^verbatim>\<open>cmd_focus\<close>: a container without a workspace is skipped; for the
  others \<^verbatim>\<open>focused\<close> is read anew in every round, after the calls of the round before.
\<close>

fun focus_loop :: "ext \<Rightarrow> con_ptr list \<Rightarrow> tree \<times> int \<Rightarrow> tree \<times> int" where
  "focus_loop e [] (t, count) = (t, count)"
| "focus_loop e (con # rest) (t, count) =
     (let ws = con_get_workspace e t con
      in if ws = NULL then focus_loop e rest (t, count)
         else
           (let currently_focused = focused t;
                t1 = con_focus e con t;
                t2 = con_focus e currently_focused t1;
                t3 = workspace_show e ws t2;
                t4 = con_focus e con t3
            in focus_loop e rest (t4, count + 1)))"

definition cmd_focus :: "ext \<Rightarrow> Match \<Rightarrow> state \<Rightarrow> error + (string option \<times> state)" where
  "cmd_focus e current_match s =
     (let params = [Some ''cmd_focus'']
      in if migration_test s
         then Inr (None, cmd_MIGRATION_save_new_parameters current_match params s)
         else
           (let s1 = cmd_MIGRATION_save_old_parameters current_match params s;
                t = tree s1
            in case in_fullscreen t of
                 Inl err \<Rightarrow> Inl err
               | Inr True \<Rightarrow> Inr (Some reply_sucess_false, s1)
               | Inr False \<Rightarrow>
                   if match_is_empty current_match
                   then Inr (Some reply_focus_unspecified, s1)
                   else
                     (let (t', count) = focus_loop e (owindows s1) (t, 0)
                      in Inr (Some reply_success, s1\<lparr>tree := tree_render e t'\<rparr>))))"

section \<open>The harness as a machine\<close>

text \<open>
  What can happen to the migration variables between two command lines: the test is
  switched on or off, a handler captures a frame on either stack, the stacks are
  validated (\<open>r\<close>: what \<^verbatim>\<open>fork\<close> would answer), a handler leaves the tree and
  \<^verbatim>\<open>owindows\<close> changed, and a child of i3 exits. The exit of
  a child that is an i3-nagbar takes it from \<open>nagbar_procs\<close>, and the event loop calls
  \<^verbatim>\<open>nagbar_exited\<close> for the watcher on its pid.
\<close>

datatype event =
    Enable
  | Disable
  | Save_new Match "string option list"
  | Save_old Match "string option list"
  | Validate int
  | Child_exit int rstatus
  | Handler tree "con_ptr list"

definition child_exit :: "int \<Rightarrow> rstatus \<Rightarrow> state \<Rightarrow> state" where
  "child_exit p st s =
     (if p \<notin> set (nagbar_procs s) then s
      else
        (let s1 = s\<lparr>nagbar_procs := removeAll p (nagbar_procs s)\<rparr>
         in if p \<in> set (child_watchers s1) then nagbar_exited p st s1 else s1))"

fun step :: "event \<Rightarrow> state \<Rightarrow> state" where
  "step Enable s = cmd_MIGRATION_enable s"
| "step Disable s = cmd_MIGRATION_disable s"
| "step (Save_new m params) s = cmd_MIGRATION_save_new_parameters m params s"
| "step (Save_old m params) s = cmd_MIGRATION_save_old_parameters m params s"
| "step (Validate r) s = snd (cmd_MIGRATION_validate r s)"
| "step (Child_exit p st) s = child_exit p st s"
| "step (Handler t ows) s = s\<lparr>tree := t, owindows := ows\<rparr>"

fun run :: "event list \<Rightarrow> state \<Rightarrow> state" where
  "run [] s = s"
| "run (ev # evs) s = run evs (step ev s)"

text \<open>The static initialisers of commands.c, over a tree \<open>t\<close>.\<close>

definition initial :: "tree \<Rightarrow> state" where
  "initial t =
     \<lparr>tree = t, owindows = [], migration_test = False, old_stackframes = [],
      new_stackframes = [], migration_pid = - 1, child_watchers = [], nagbar_procs = []\<rparr>"

section \<open>A concrete tree\<close>

text \<open>
  Modelled from the spec: the collaborators are interfaces only. \<open>plain_ext\<close> is one
  implementation of them, used where the handlers are run on a concrete tree: a pattern
  matches the text equal to it, the matcher accepts a window when every window predicate
  that is present matches (class, instance, role, title, window id), a container is
  inside a floating container when it or its parent is one, the children of a container
  are the containers of \<^verbatim>\<open>all_cons\<close> below it, the workspace of a container is itself or
  its parent, and the setters write the member they are named after. Its arithmetic
  is exact: every real number is a \<^verbatim>\<open>double\<close> and a \<^verbatim>\<open>float\<close> of its own, and nothing
  is rounded.
\<close>

definition regex_opt_matches :: "regex option \<Rightarrow> string option \<Rightarrow> bool" where
  "regex_opt_matches re text =
     (case re of
        None \<Rightarrow> True
      | Some r \<Rightarrow> (case text of None \<Rightarrow> False | Some str \<Rightarrow> pattern r = str))"

definition plain_matcher :: "Match \<Rightarrow> Window \<Rightarrow> bool" where
  "plain_matcher m w =
     (regex_opt_matches (m_class m) (w_class_class w) \<and>
      regex_opt_matches (m_instance m) (w_class_instance w) \<and>
      regex_opt_matches (m_role m) (w_role w) \<and>
      regex_opt_matches (m_title m) (w_name w) \<and>
      (m_id m = 0 \<or> m_id m = w_id w))"

definition update_con :: "con_ptr \<Rightarrow> (Con \<Rightarrow> Con) \<Rightarrow> tree \<Rightarrow> tree" where
  "update_con p f t =
     (case cons t p of None \<Rightarrow> t | Some c \<Rightarrow> t\<lparr>cons := (cons t)(p \<mapsto> f c)\<rparr>)"

definition has_type :: "tree \<Rightarrow> con_ptr \<Rightarrow> con_type \<Rightarrow> bool" where
  "has_type t p ty = (case deref t p of None \<Rightarrow> False | Some c \<Rightarrow> c_type c = ty)"

definition parent_of :: "tree \<Rightarrow> con_ptr \<Rightarrow> con_ptr" where
  "parent_of t p = (case deref t p of None \<Rightarrow> NULL | Some c \<Rightarrow> c_parent c)"

definition plain_ext :: ext where
  "plain_ext =
     \<lparr>regex_matches = (\<lambda>re text. pattern re = text),
      match_matches_window = plain_matcher,
      con_inside_floating =
        (\<lambda>t con. if has_type t con CT_FLOATING_CON then con
                  else if has_type t (parent_of t con) CT_FLOATING_CON then parent_of t con
                  else NULL),
      con_num_children = (\<lambda>t p. int (length (filter (\<lambda>q. parent_of t q = p) (all_cons t)))),
      con_get_workspace =
        (\<lambda>t con. if has_type t con CT_WORKSPACE then con
                  else if has_type t (parent_of t con) CT_WORKSPACE then parent_of t con
                  else NULL),
      con_focus = (\<lambda>con t. t\<lparr>focused := con\<rparr>),
      workspace_show = (\<lambda>ws t. t),
      con_set_layout = (\<lambda>con layout. update_con con (\<lambda>c. c\<lparr>c_layout := layout\<rparr>)),
      con_toggle_fullscreen =
        (\<lambda>con mode. update_con con
           (\<lambda>c. c\<lparr>c_fullscreen_mode := (if c_fullscreen_mode c = CF_NONE then mode else CF_NONE)\<rparr>)),
      toggle_floating_mode = (\<lambda>con automatic t. t),
      floating_enable = (\<lambda>con automatic t. t),
      floating_disable = (\<lambda>con automatic t. t),
      scratchpad_move = (\<lambda>con t. t),
      tree_render = (\<lambda>t. t),
      to_double = (\<lambda>x. x),
      to_float = (\<lambda>x. x)\<rparr>"

text \<open>
  An output content container 5, its workspace 2 split horizontally, and two windows
  3 and 4 side by side on it, each at half of the width; 3 has the focus.
\<close>

definition plain_rect :: Rect where
  "plain_rect = \<lparr>r_x = 0, r_y = 0, r_width = 800, r_height = 600\<rparr>"

definition mk_con :: "con_type \<Rightarrow> con_ptr \<Rightarrow> orientation_t \<Rightarrow> real \<Rightarrow> con_ptr \<Rightarrow> con_ptr \<Rightarrow> Con" where
  "mk_con ty parent orientation percent prev next =
     \<lparr>c_type = ty, c_parent = parent, c_layout = L_DEFAULT, c_orientation = orientation,
      c_percent = percent, c_rect = plain_rect, c_mark = None, c_window = None,
      c_fullscreen_mode = CF_NONE, c_nodes_prev = prev, c_nodes_next = next\<rparr>"

definition mk_window :: "32 word \<Rightarrow> string \<Rightarrow> Window" where
  "mk_window wid cls =
     \<lparr>w_id = wid, w_class_class = Some cls, w_class_instance = Some cls, w_role = None,
      w_name = Some cls\<rparr>"

definition tree0 :: tree where
  "tree0 =
     \<lparr>cons = [5 \<mapsto> mk_con CT_OUTPUT NULL HORIZ 1 NULL NULL,
              2 \<mapsto> mk_con CT_WORKSPACE 5 HORIZ 1 NULL NULL,
              3 \<mapsto> (mk_con CT_CON 2 NO_ORIENTATION (1 / 2) NULL 4)
                    \<lparr>c_mark := Some ''a'', c_window := Some (mk_window 11 ''term'')\<rparr>,
              4 \<mapsto> (mk_con CT_CON 2 NO_ORIENTATION (1 / 2) 3 NULL)
                    \<lparr>c_mark := Some ''b'', c_window := Some (mk_window 12 ''xterm'')\<rparr>],
      focused = 3,
      all_cons = [5, 2, 3, 4]\<rparr>"

definition state0 :: state where
  "state0 = (initial tree0)\<lparr>owindows := all_cons tree0\<rparr>"

text \<open>
  A workspace 2 (on the output content container 28) with the 25 windows 3 to 27 side by
  side, none with a percentage set.
\<close>

definition wide_tree :: tree where
  "wide_tree =
     \<lparr>cons = (\<lambda>p. if p = 28 then Some (mk_con CT_OUTPUT NULL HORIZ 1 NULL NULL)
                   else if p = 2 then Some (mk_con CT_WORKSPACE 28 HORIZ 1 NULL NULL)
                   else if 3 \<le> p \<and> p \<le> 27
                   then Some (mk_con CT_CON 2 NO_ORIENTATION 0
                                (if p = 3 then NULL else p - 1) (if p = 27 then NULL else p + 1))
                   else None),
      focused = 3,
      all_cons = 28 # [2..<28]\<rparr>"

definition wide_state :: state where
  "wide_state = (initial wide_tree)\<lparr>owindows := all_cons wide_tree\<rparr>"

text \<open>The first tree with its focused window in fullscreen mode.\<close>

definition fullscreen_state :: state where
  "fullscreen_state =
     state0\<lparr>tree := update_con 3 (\<lambda>c. c\<lparr>c_fullscreen_mode := CF_OUTPUT\<rparr>) tree0\<rparr>"

text \<open>The first tree with the workspace and its output split vertically.\<close>

definition vert_tree :: tree where
  "vert_tree =
     update_con 5 (\<lambda>c. c\<lparr>c_orientation := VERT\<rparr>)
       (update_con 2 (\<lambda>c. c\<lparr>c_orientation := VERT\<rparr>) tree0)"

text \<open>Matches with criteria, frames and a run of the harness.\<close>

definition match_con4 :: Match where
  "match_con4 =
     match_init\<lparr>m_con_id := 4, m_class := Some (Regex ''nomatch''), m_mark := Some (Regex ''a'')\<rparr>"

definition match_mark_a :: Match where
  "match_mark_a = match_init\<lparr>m_mark := Some (Regex ''a''), m_class := Some (Regex ''xterm'')\<rparr>"

definition frame_x :: stackframe where
  "frame_x = \<lparr>sf_match = match_mark_a, sf_args = [Some ''cmd_nop'', Some ''x'']\<rparr>"

definition frame_y :: stackframe where
  "frame_y = \<lparr>sf_match = match_mark_a, sf_args = [Some ''cmd_nop'', Some ''y'']\<rparr>"

definition differing_state :: state where
  "differing_state =
     state0\<lparr>new_stackframes := [frame_x, frame_x], old_stackframes := [frame_x, frame_y]\<rparr>"

definition failing_run :: "event list" where
  "failing_run = [Enable, Save_new match_init [Some ''cmd_nop''], Disable, Validate 4711]"

section \<open>The comparison of two captured sequences, as specified\<close>

text \<open>
  The specification of the comparison that \<^verbatim>\<open>cmd_MIGRATION_validate\<close> is checked
  against, in its own words: two regex predicates are equal iff both are absent, or
  both are present with identical pattern text; two arguments are equal iff both are
  \<^verbatim>\<open>NULL\<close> or both are the same string; two frames agree iff their matches agree on
  the identity fields and on every regex predicate and their argument lists have equal
  length and are equal element by element.
\<close>

definition spec_regex_equal :: "regex option \<Rightarrow> regex option \<Rightarrow> bool" where
  "spec_regex_equal a b =
     (case (a, b) of
        (None, None) \<Rightarrow> True
      | (Some x, Some y) \<Rightarrow> pattern x = pattern y
      | _ \<Rightarrow> False)"

definition spec_arg_equal :: "string option \<Rightarrow> string option \<Rightarrow> bool" where
  "spec_arg_equal a b =
     (case (a, b) of
        (None, None) \<Rightarrow> True
      | (Some x, Some y) \<Rightarrow> x = y
      | _ \<Rightarrow> False)"

definition spec_frames_agree :: "stackframe \<Rightarrow> stackframe \<Rightarrow> bool" where
  "spec_frames_agree new old =
     (m_dock (sf_match new) = m_dock (sf_match old) \<and>
      m_id (sf_match new) = m_id (sf_match old) \<and>
      m_con_id (sf_match new) = m_con_id (sf_match old) \<and>
      m_floating (sf_match new) = m_floating (sf_match old) \<and>
      m_insert_where (sf_match new) = m_insert_where (sf_match old) \<and>
      spec_regex_equal (m_title (sf_match new)) (m_title (sf_match old)) \<and>
      spec_regex_equal (m_application (sf_match new)) (m_application (sf_match old)) \<and>
      spec_regex_equal (m_class (sf_match new)) (m_class (sf_match old)) \<and>
      spec_regex_equal (m_instance (sf_match new)) (m_instance (sf_match old)) \<and>
      spec_regex_equal (m_mark (sf_match new)) (m_mark (sf_match old)) \<and>
      spec_regex_equal (m_role (sf_match new)) (m_role (sf_match old)) \<and>
      length (sf_args new) = length (sf_args old) \<and>
      list_all2 spec_arg_equal (sf_args new) (sf_args old))"

text \<open>The frame index that a report prints (\<^verbatim>\<open>"(frame %d)"\<close>), if it prints one.\<close>

fun failed_frame :: "report \<Rightarrow> nat option" where
  "failed_frame (FAILED_match i) = Some i"
| "failed_frame (FAILED_n_args i) = Some i"
| "failed_frame (FAILED_args j i) = Some i"
| "failed_frame r = None"

text \<open>
  The invariant of the nagbar variables: a watcher for every i3-nagbar that runs, and
  no i3-nagbar but the one whose pid \<^verbatim>\<open>migration_pid\<close> holds.
\<close>

definition nagbar_inv :: "state \<Rightarrow> bool" where
  "nagbar_inv s =
     (child_watchers s = nagbar_procs s \<and>
      (nagbar_procs s = [] \<or> (nagbar_procs s = [migration_pid s] \<and> 0 < migration_pid s)))"

section \<open>Properties\<close>

subsection \<open>Facts used by several properties\<close>

lemma clear_stack_Nil: "clear_stack fs = []"
  by (induction fs) simp_all

lemma save_old_frame [simp]:
  "tree (cmd_MIGRATION_save_old_parameters m ps s) = tree s"
  "owindows (cmd_MIGRATION_save_old_parameters m ps s) = owindows s"
  "migration_test (cmd_MIGRATION_save_old_parameters m ps s) = migration_test s"
  by (simp_all add: cmd_MIGRATION_save_old_parameters_def)

text \<open>
  A candidate that \<^verbatim>\<open>definitelyGreaterThan\<close> accepts is greater than the floor, under
  every rounding that keeps the order and keeps 0.
\<close>

lemma definitelyGreaterThan_floor:
  assumes "rounding_monotone e" and "definitelyGreaterThan e a b DBL_EPSILON"
  shows "b < a"
proof (rule ccontr)
  assume "\<not> b < a"
  then have "a \<le> b" by simp
  from assms(1) have md: "mono (to_double e)" and zd: "to_double e 0 = 0"
    and mf: "mono (to_float e)" and zf: "to_float e 0 = 0"
    by (simp_all add: rounding_monotone_def)
  define fa where "fa = to_float e a"
  define fb where "fb = to_float e b"
  define fe where "fe = to_float e DBL_EPSILON"
  have "0 \<le> fe"
    using monoD [OF mf, of 0 DBL_EPSILON] by (simp add: fe_def zf DBL_EPSILON_def)
  then have "0 \<le> (if \<bar>fa\<bar> < \<bar>fb\<bar> then \<bar>fb\<bar> else \<bar>fa\<bar>) * fe"
    by simp
  then have rhs: "0 \<le> to_double e ((if \<bar>fa\<bar> < \<bar>fb\<bar> then \<bar>fb\<bar> else \<bar>fa\<bar>) * fe)"
    using monoD [OF md, of 0 "(if \<bar>fa\<bar> < \<bar>fb\<bar> then \<bar>fb\<bar> else \<bar>fa\<bar>) * fe"] by (simp add: zd)
  from \<open>a \<le> b\<close> have "fa \<le> fb"
    unfolding fa_def fb_def by (rule monoD [OF mf])
  then have "to_float e (fa - fb) \<le> 0"
    using monoD [OF mf, of "fa - fb" 0] by (simp add: zf)
  moreover from assms(2)
  have "to_double e ((if \<bar>fa\<bar> < \<bar>fb\<bar> then \<bar>fb\<bar> else \<bar>fa\<bar>) * fe) < to_float e (fa - fb)"
    unfolding definitelyGreaterThan_def Let_def fa_def fb_def fe_def .
  ultimately show False using rhs by linarith
qed

lemma percent_of_set_percent:
  "cons t p \<noteq> None \<Longrightarrow> percent_of (set_percent p v t) q = (if q = p then v else percent_of t q)"
  by (auto simp: percent_of_def set_percent_def)

lemma cons_set_percent:
  "cons (set_percent p v t) q =
     (if q = p then map_option (\<lambda>c. c\<lparr>c_percent := v\<rparr>) (cons t p) else cons t q)"
  by (auto simp: set_percent_def split: option.splits)

lemma resize_percents_eq:
  assumes "deref t current = Some c" and "deref t other = Some oc" and "current \<noteq> other"
  shows "(let c0 = (if c_percent c = 0 then percentage else c_percent c);
              o0 = (if c_percent oc = 0 then percentage else c_percent oc);
              delta = to_double e (real_of_int (sint ppt) / 100);
              new_c = to_double e (c0 + delta);
              new_o = to_double e (o0 - delta);
              applied = (definitelyGreaterThan e new_c (to_double e 0.05) DBL_EPSILON \<and>
                         definitelyGreaterThan e new_o (to_double e 0.05) DBL_EPSILON)
          in resize_percents e percentage ppt current other t =
               Inr (t\<lparr>cons := (cons t)
                      (current \<mapsto> c\<lparr>c_percent := (if applied then new_c else c0)\<rparr>,
                       other \<mapsto> oc\<lparr>c_percent := (if applied then new_o else o0)\<rparr>)\<rparr>))"
proof -
  from assms have cc: "cons t current = Some c" and co: "cons t other = Some oc"
    by (auto simp: deref_def split: if_splits)
  define c0 where "c0 = (if c_percent c = 0 then percentage else c_percent c)"
  define o0 where "o0 = (if c_percent oc = 0 then percentage else c_percent oc)"
  define delta where "delta = to_double e (real_of_int (sint ppt) / 100)"
  define t1 where "t1 = (if percent_of t current = 0 then set_percent current percentage t else t)"
  define t2 where "t2 = (if percent_of t1 other = 0 then set_percent other percentage t1 else t1)"
  have t1: "t1 = t\<lparr>cons := (cons t)(current \<mapsto> c\<lparr>c_percent := c0\<rparr>)\<rparr>"
    using cc by (simp add: t1_def c0_def percent_of_def set_percent_def fun_upd_idem)
  have t2: "t2 = t\<lparr>cons := (cons t)(current \<mapsto> c\<lparr>c_percent := c0\<rparr>, other \<mapsto> oc\<lparr>c_percent := o0\<rparr>)\<rparr>"
    using co \<open>current \<noteq> other\<close>
    by (simp add: t2_def t1 o0_def percent_of_def set_percent_def fun_upd_idem)
  have p2: "percent_of t2 current = c0" "percent_of t2 other = o0"
    using \<open>current \<noteq> other\<close> by (simp_all add: t2 percent_of_def)
  have t4: "set_percent other y (set_percent current x t2) =
      t\<lparr>cons := (cons t)(current \<mapsto> c\<lparr>c_percent := x\<rparr>, other \<mapsto> oc\<lparr>c_percent := y\<rparr>)\<rparr>" for x y
    using \<open>current \<noteq> other\<close> by (simp add: t2 set_percent_def fun_upd_twist)
  have p3: "percent_of (set_percent current x t2) other = o0" for x
    using \<open>current \<noteq> other\<close> by (simp add: t2 set_percent_def percent_of_def)
  have unfold: "resize_percents e percentage ppt current other t =
      (if definitelyGreaterThan e (to_double e (c0 + delta)) (to_double e 0.05) DBL_EPSILON \<and>
          definitelyGreaterThan e (to_double e (o0 - delta)) (to_double e 0.05) DBL_EPSILON
       then Inr (set_percent other (to_double e (o0 - delta))
                   (set_percent current (to_double e (c0 + delta)) t2))
       else Inr t2)"
    using assms(1,2)
    by (simp add: resize_percents_def Let_def delta_def p2 p3 flip: t1_def t2_def)
  show ?thesis
    unfolding Let_def c0_def [symmetric] o0_def [symmetric] delta_def [symmetric] unfold t4
    by (simp add: t2)
qed

text \<open>
  The narrowing to \<^verbatim>\<open>float\<close> can refuse a candidate that is greater than the floor
  as a double: two doubles that narrow to the same float are never told apart.
\<close>

lemma definitelyGreaterThan_same_float:
  assumes "rounding_monotone e" and "to_float e a = to_float e b"
  shows "\<not> definitelyGreaterThan e a b DBL_EPSILON"
proof -
  define fa where "fa = to_float e a"
  define fb where "fb = to_float e b"
  define fe where "fe = to_float e DBL_EPSILON"
  from assms(1) have mono: "mono (to_double e)" "mono (to_float e)"
    and zero: "to_double e 0 = 0" "to_float e 0 = 0"
    by (simp_all add: rounding_monotone_def)
  have "(0 :: real) \<le> DBL_EPSILON"
    by (simp add: DBL_EPSILON_def)
  with mono(2) have "to_float e 0 \<le> fe"
    unfolding fe_def by (rule monoD)
  with zero have "0 \<le> (if \<bar>fa\<bar> < \<bar>fb\<bar> then \<bar>fb\<bar> else \<bar>fa\<bar>) * fe"
    by simp
  with mono(1) have "to_double e 0 \<le> to_double e ((if \<bar>fa\<bar> < \<bar>fb\<bar> then \<bar>fb\<bar> else \<bar>fa\<bar>) * fe)"
    by (rule monoD)
  moreover from assms(2) have "to_float e (fa - fb) = 0"
    by (simp add: fa_def fb_def zero)
  ultimately have "\<not> to_float e (fa - fb)
      > to_double e ((if \<bar>fa\<bar> < \<bar>fb\<bar> then \<bar>fb\<bar> else \<bar>fa\<bar>) * fe)"
    by (simp add: zero)
  then show ?thesis
    unfolding definitelyGreaterThan_def Let_def fa_def fb_def fe_def .
qed

subsection \<open>The example trees, evaluated\<close>

lemma atoi_10: "atoi ''10'' = 10" "atoi ''46'' = 46"
  by (simp_all add: atoi_def strtol_def isspace_def isdigit_def)

lemma plain_arith: "to_double plain_ext = (\<lambda>x. x)" "to_float plain_ext = (\<lambda>x. x)"
  by (simp_all add: plain_ext_def)

lemma plain_rounding: "rounding_monotone plain_ext"
  by (simp add: rounding_monotone_def plain_arith mono_def)

lemma tree0_focused: "focused tree0 = 3"
  by (simp add: tree0_def)

lemma tree0_deref:
  "deref tree0 5 = Some (mk_con CT_OUTPUT NULL HORIZ 1 NULL NULL)"
  "deref tree0 2 = Some (mk_con CT_WORKSPACE 5 HORIZ 1 NULL NULL)"
  "deref tree0 3 = Some ((mk_con CT_CON 2 NO_ORIENTATION (1 / 2) NULL 4)
                     \<lparr>c_mark := Some ''a'', c_window := Some (mk_window 11 ''term'')\<rparr>)"
  "deref tree0 4 = Some ((mk_con CT_CON 2 NO_ORIENTATION (1 / 2) 3 NULL)
                     \<lparr>c_mark := Some ''b'', c_window := Some (mk_window 12 ''xterm'')\<rparr>)"
  by (simp_all add: tree0_def deref_def)

lemma tree0_skip: "skip_stacked_tabbed tree0 3 = Some (Inr 3)"
  by (simp add: skip_stacked_tabbed.simps tree0_deref mk_con_def)

lemma tree0_find:
  "find_orientation tree0 HORIZ 3 = Some (Inr 3)"
  "find_orientation tree0 VERT 3 = Some (Inr 2)"
  by (simp_all add: find_orientation.simps tree0_deref mk_con_def)

lemma tree0_tiling: "con_inside_floating plain_ext tree0 3 = NULL"
  by (simp add: plain_ext_def has_type_def parent_of_def tree0_deref mk_con_def)

lemma tree0_children: "con_num_children plain_ext tree0 2 = 2"
  by (simp add: plain_ext_def tree0_def parent_of_def deref_def mk_con_def)

lemma state0_facts:
  "tree state0 = tree0" "\<not> migration_test state0" "owindows state0 = [5, 2, 3, 4]"
  by (simp_all add: state0_def initial_def tree0_def)

lemma plain_render: "tree_render plain_ext = (\<lambda>t. t)"
  by (simp add: plain_ext_def)

lemma wide_focused: "focused wide_tree = 3"
  by (simp add: wide_tree_def)

lemma wide_deref:
  "deref wide_tree 2 = Some (mk_con CT_WORKSPACE 28 HORIZ 1 NULL NULL)"
  "deref wide_tree 3 = Some (mk_con CT_CON 2 NO_ORIENTATION 0 NULL 4)"
  "deref wide_tree 4 = Some (mk_con CT_CON 2 NO_ORIENTATION 0 3 5)"
  by (simp_all add: wide_tree_def deref_def)

lemma wide_skip: "skip_stacked_tabbed wide_tree 3 = Some (Inr 3)"
  by (simp add: skip_stacked_tabbed.simps wide_deref mk_con_def)

lemma wide_find: "find_orientation wide_tree HORIZ 3 = Some (Inr 3)"
  by (simp add: find_orientation.simps wide_deref mk_con_def)

lemma wide_tiling: "con_inside_floating plain_ext wide_tree 3 = NULL"
  by (simp add: plain_ext_def has_type_def parent_of_def wide_deref mk_con_def)

lemma wide_children: "con_num_children plain_ext wide_tree 2 = 25"
  by (simp add: plain_ext_def wide_tree_def parent_of_def deref_def mk_con_def upt_rec)

lemma wide_state_facts:
  "tree wide_state = wide_tree" "\<not> migration_test wide_state"
  by (simp_all add: wide_state_def initial_def)

lemma wide_percents:
  "resize_percents plain_ext (1 / 25) (- 10) 3 4 wide_tree =
     Inr (set_percent 4 (1 / 25) (set_percent 3 (1 / 25) wide_tree))"
proof -
  have c: "cons wide_tree 3 = Some (mk_con CT_CON 2 NO_ORIENTATION 0 NULL 4)"
    "cons wide_tree 4 = Some (mk_con CT_CON 2 NO_ORIENTATION 0 3 5)"
    by (simp_all add: wide_tree_def)
  show ?thesis
    by (simp add: resize_percents_def wide_deref c percent_of_set_percent cons_set_percent
        percent_of_def [of wide_tree] mk_con_def definitelyGreaterThan_def DBL_EPSILON_def Let_def
        plain_arith)
qed

subsection \<open>The comparison of the code against the specified one\<close>

lemma spec_regex_equal_iff: "spec_regex_equal a b \<longleftrightarrow> \<not> re_differ a b"
  by (cases a; cases b) (simp_all add: spec_regex_equal_def re_differ_def)

lemma spec_arg_equal_iff: "spec_arg_equal a b \<longleftrightarrow> \<not> str_differ a b"
  by (cases a; cases b) (simp_all add: spec_arg_equal_def str_differ_def)

lemma args_differ_from_None:
  "length news = length olds \<Longrightarrow>
   args_differ_from j news olds = None \<longleftrightarrow> list_all2 spec_arg_equal news olds"
  by (induction news olds arbitrary: j rule: list_induct2) (simp_all add: spec_arg_equal_iff)

lemma spec_frames_agree_iff:
  "spec_frames_agree new old \<longleftrightarrow>
     \<not> match_differ (sf_match new) (sf_match old) \<and> n_args new = n_args old \<and>
     args_differ_from 0 (sf_args new) (sf_args old) = None"
  unfolding spec_frames_agree_def match_differ_def spec_regex_equal_iff n_args_def
  using args_differ_from_None [of "sf_args new" "sf_args old" 0] by auto

lemma compare_frames_agree:
  "spec_frames_agree new old \<Longrightarrow>
   compare_frames i (new # news) (old # olds) = compare_frames (Suc i) news olds"
  by (auto simp: spec_frames_agree_iff split: option.splits)

lemma compare_frames_differ:
  "\<not> spec_frames_agree new old \<Longrightarrow>
   failed_frame (compare_frames i (new # news) (old # olds)) = Some i \<and>
   compare_frames i (new # news) (old # olds) \<noteq> OK"
  by (auto simp: spec_frames_agree_iff split: option.splits)

lemma compare_frames_OK:
  "length news = length olds \<Longrightarrow>
   compare_frames i news olds = OK \<longleftrightarrow>
     (\<forall>k<length news. spec_frames_agree (news ! k) (olds ! k))"
proof (induction news olds arbitrary: i rule: list_induct2)
  case Nil
  then show ?case by simp
next
  case (Cons new news old olds)
  show ?case
  proof (cases "spec_frames_agree new old")
    case True
    then show ?thesis
      using Cons.IH [of "Suc i"] compare_frames_agree [of new old i news olds]
      by (simp add: All_less_Suc2 del: compare_frames.simps)
  next
    case False
    then show ?thesis
      using compare_frames_differ [of new old i news olds]
      by (auto simp del: compare_frames.simps)
  qed
qed

lemma compare_frames_first:
  "length news = length olds \<Longrightarrow> k < length news \<Longrightarrow>
   \<not> spec_frames_agree (news ! k) (olds ! k) \<Longrightarrow>
   (\<forall>j<k. spec_frames_agree (news ! j) (olds ! j)) \<Longrightarrow>
   failed_frame (compare_frames i news olds) = Some (i + k)"
proof (induction news olds arbitrary: i k rule: list_induct2)
  case Nil
  then show ?case by simp
next
  case (Cons new news old olds)
  show ?case
  proof (cases k)
    case 0
    with Cons.prems show ?thesis
      using compare_frames_differ [of new old i news olds]
      by (simp del: compare_frames.simps)
  next
    case (Suc k')
    with Cons.prems have agree: "spec_frames_agree new old" by auto
    have "failed_frame (compare_frames (Suc i) news olds) = Some (Suc i + k')"
      using Cons.prems Suc by (intro Cons.IH) auto
    with agree Suc show ?thesis
      using compare_frames_agree [of new old i news olds]
      by (simp del: compare_frames.simps)
  qed
qed

subsection \<open>The invariant of the nagbar variables\<close>

lemma start_nagbar_inv: "nagbar_inv s \<Longrightarrow> nagbar_inv (cmd_MIGRATION_start_nagbar r s)"
  by (auto simp: nagbar_inv_def cmd_MIGRATION_start_nagbar_def fork_def Let_def)

lemma child_exit_inv: "nagbar_inv s \<Longrightarrow> nagbar_inv (child_exit p st s)"
  by (auto simp: nagbar_inv_def child_exit_def nagbar_exited_def Let_def split: rstatus.splits)

lemma step_inv:
  assumes "nagbar_inv s"
  shows "nagbar_inv (step ev s)"
proof (cases ev)
  case (Validate r)
  with assms show ?thesis
    using start_nagbar_inv [of s r]
    by (simp add: cmd_MIGRATION_validate_def split: report.splits)
next
  case (Child_exit p st)
  with assms show ?thesis using child_exit_inv by simp
qed (use assms in \<open>simp_all add: nagbar_inv_def cmd_MIGRATION_enable_def
       cmd_MIGRATION_disable_def cmd_MIGRATION_save_new_parameters_def
       cmd_MIGRATION_save_old_parameters_def Let_def\<close>)

lemma run_inv: "nagbar_inv s \<Longrightarrow> nagbar_inv (run evs s)"
  by (induction evs arbitrary: s) (simp_all add: step_inv)

lemma initial_inv: "nagbar_inv (initial t)"
  by (simp add: nagbar_inv_def initial_def)

lemma start_nagbar_active:
  "migration_pid s \<noteq> - 1 \<Longrightarrow> cmd_MIGRATION_start_nagbar r s = s"
  by (simp add: cmd_MIGRATION_start_nagbar_def)

lemma validate_active:
  "migration_pid s \<noteq> - 1 \<Longrightarrow> snd (cmd_MIGRATION_validate r s) = s"
  by (simp add: cmd_MIGRATION_validate_def start_nagbar_active split: report.splits)

lemma step_resets:
  assumes "nagbar_inv s" and "migration_pid s \<noteq> - 1" and "migration_pid (step ev s) = - 1"
  shows "\<exists>exitcode. ev = Child_exit (migration_pid s) (Exited exitcode)"
proof (cases ev)
  case (Validate r)
  with assms show ?thesis
    by (simp add: validate_active)
next
  case (Child_exit p st)
  with assms show ?thesis
    by (auto simp: nagbar_inv_def child_exit_def nagbar_exited_def Let_def
        split: rstatus.splits if_splits)
qed (use assms in \<open>simp_all add: cmd_MIGRATION_enable_def cmd_MIGRATION_disable_def
       cmd_MIGRATION_save_new_parameters_def cmd_MIGRATION_save_old_parameters_def Let_def\<close>)

subsection \<open>Facts about the criteria and the example matches\<close>

lemma match_loop_con_id:
  "m_con_id m \<noteq> NULL \<Longrightarrow>
   match_loop e m t ows = Inr (filter (\<lambda>con. m_con_id m = con) ows)"
  by (induction ows) (simp_all add: owindow_matches_def criteria_arm_def)

lemma match_init_empty: "match_is_empty match_init"
  by (simp add: match_is_empty_def match_init_def)

lemma match_con4_nonempty: "\<not> match_is_empty match_con4"
  by (simp add: match_is_empty_def match_con4_def match_init_def)

lemma tree0_cons:
  "cons tree0 2 = Some (mk_con CT_WORKSPACE 5 HORIZ 1 NULL NULL)"
  "cons tree0 3 = Some ((mk_con CT_CON 2 NO_ORIENTATION (1 / 2) NULL 4)
                     \<lparr>c_mark := Some ''a'', c_window := Some (mk_window 11 ''term'')\<rparr>)"
  "cons tree0 4 = Some ((mk_con CT_CON 2 NO_ORIENTATION (1 / 2) 3 NULL)
                     \<lparr>c_mark := Some ''b'', c_window := Some (mk_window 12 ''xterm'')\<rparr>)"
  by (simp_all add: tree0_def)

lemma plain_set_layout:
  "con_set_layout plain_ext con layout t = update_con con (\<lambda>c. c\<lparr>c_layout := layout\<rparr>) t"
  by (simp add: plain_ext_def)

lemma cons_update_con:
  "cons (update_con p f t) q = (if q = p then map_option f (cons t p) else cons t q)"
  by (auto simp: update_con_def split: option.splits)

lemma focused_update_con: "focused (update_con p f t) = focused t"
  by (simp add: update_con_def split: option.splits)

lemma vert_focused: "focused vert_tree = 3"
  by (simp add: vert_tree_def focused_update_con tree0_focused)

lemma vert_deref:
  "deref vert_tree 5 = Some (mk_con CT_OUTPUT NULL VERT 1 NULL NULL)"
  "deref vert_tree 2 = Some (mk_con CT_WORKSPACE 5 VERT 1 NULL NULL)"
  "deref vert_tree 3 = Some ((mk_con CT_CON 2 NO_ORIENTATION (1 / 2) NULL 4)
                     \<lparr>c_mark := Some ''a'', c_window := Some (mk_window 11 ''term'')\<rparr>)"
  by (simp_all add: vert_tree_def deref_def cons_update_con tree0_def mk_con_def)

lemma vert_skip: "skip_stacked_tabbed vert_tree 3 = Some (Inr 3)"
  by (simp add: skip_stacked_tabbed.simps vert_deref mk_con_def)

lemma vert_find: "find_orientation vert_tree HORIZ 3 = Some (Inr 2)"
  by (simp add: find_orientation.simps vert_deref mk_con_def)

lemma vert_tiling: "con_inside_floating plain_ext vert_tree 3 = NULL"
  by (simp add: plain_ext_def has_type_def parent_of_def vert_deref mk_con_def)

subsection \<open>C1: the resize floor\<close>

text \<open>
  Claim C1 says that a tiling resize of two sibling percentages either is skipped and
  leaves both unchanged, or updates both by \<open>ppt / 100\<close> after both candidates passed
  the comparison against 0.05, and that no outcome leaves a participant at or below the
  floor.

  As stated this fails: 25 windows side by side whose percentages are unset (0.0) get
  the default 1/25 written into \<^verbatim>\<open>current\<close> and \<^verbatim>\<open>other\<close> before the
  comparison; shrinking by 10 ppt is then skipped, and both stay at 0.04, which is
  neither their old value nor above the floor. The reply is the success reply. All the
  numbers of this run (0.04, 0.1, 0.14, -0.06 against 0.05) are far enough apart that
  no rounding changes a comparison; the run is evaluated with exact arithmetic.
\<close>

theorem resize_floor_counterexample:
  "percent_of wide_tree 3 = 0 \<and> percent_of wide_tree 4 = 0 \<and>
   con_num_children plain_ext wide_tree 2 = 25 \<and>
   cmd_resize plain_ext match_init ''shrink'' ''right'' ''10'' ''10'' wide_state =
     Some (Inr (Some reply_success,
       (cmd_MIGRATION_save_old_parameters match_init
          [Some ''cmd_resize'', Some ''shrink'', Some ''right'', Some ''10'', Some ''10'']
          wide_state)
       \<lparr>tree := set_percent 4 (1 / 25) (set_percent 3 (1 / 25) wide_tree)\<rparr>)) \<and>
   percent_of (set_percent 4 (1 / 25) (set_percent 3 (1 / 25) wide_tree)) 3 = 1 / 25 \<and>
   percent_of (set_percent 4 (1 / 25) (set_percent 3 (1 / 25) wide_tree)) 4 = 1 / 25 \<and>
   (1 / 25 :: real) \<le> 0.05 - DBL_EPSILON"
proof -
  have tiling: "resize_tiling plain_ext ''right'' (- 10) wide_tree =
      Some (Inr (None, set_percent 4 (1 / 25) (set_percent 3 (1 / 25) wide_tree)))"
    by (simp add: resize_tiling_def wide_focused wide_skip wide_find wide_deref wide_children
        Let_def mk_con_def wide_percents plain_arith)
  have cmd: "cmd_resize plain_ext match_init ''shrink'' ''right'' ''10'' ''10'' wide_state =
     Some (Inr (Some reply_success,
       (cmd_MIGRATION_save_old_parameters match_init
          [Some ''cmd_resize'', Some ''shrink'', Some ''right'', Some ''10'', Some ''10'']
          wide_state)
       \<lparr>tree := set_percent 4 (1 / 25) (set_percent 3 (1 / 25) wide_tree)\<rparr>))"
    by (simp add: cmd_resize_def Let_def wide_state_facts wide_focused wide_tiling atoi_10
        tiling plain_render)
  have c: "cons wide_tree 3 = Some (mk_con CT_CON 2 NO_ORIENTATION 0 NULL 4)"
    "cons wide_tree 4 = Some (mk_con CT_CON 2 NO_ORIENTATION 0 3 5)"
    by (simp_all add: wide_tree_def)
  have before: "percent_of wide_tree 3 = 0" "percent_of wide_tree 4 = 0"
    by (simp_all add: percent_of_def c mk_con_def)
  have after: "percent_of (set_percent 4 (1 / 25) (set_percent 3 (1 / 25) wide_tree)) 3 = 1 / 25"
    "percent_of (set_percent 4 (1 / 25) (set_percent 3 (1 / 25) wide_tree)) 4 = 1 / 25"
    by (simp_all add: percent_of_set_percent cons_set_percent c)
  have "(1 / 25 :: real) \<le> 0.05 - DBL_EPSILON"
    by (simp add: DBL_EPSILON_def)
  with cmd before after wide_children show ?thesis by simp
qed

text \<open>
  C1 as amended. \<^verbatim>\<open>cmd_resize\<close> runs (the migration test is not capturing) on a
  container that is not inside a floating one; the two walks resolve \<open>current\<close>,
  whose parent is split along the direction; \<open>other\<close> is the sibling before it (up,
  left) or after it (down, right), a container other than \<open>current\<close>. Then the
  handler returns the success reply, and the tree it renders is the old one with the
  percentages of \<open>current\<close> and \<open>other\<close> changed and nothing else: an unset
  percentage (0.0) is first replaced by the default, the double of 1 / children of
  the parent; with \<open>c0\<close> and \<open>o0\<close> the percentages after that step and \<open>ppt\<close> the
  \<^verbatim>\<open>int\<close> that \<^verbatim>\<open>atoi\<close> reads (negated to shrink), the doubles of
  \<open>c0 + ppt / 100\<close> and \<open>o0 - ppt / 100\<close> are written exactly when
  \<^verbatim>\<open>definitelyGreaterThan\<close>, which narrows its arguments to \<^verbatim>\<open>float\<close>, accepts both
  against 0.05; else \<open>c0\<close> and \<open>o0\<close> are left. When the values are written, both are
  greater than the double 0.05, for every rounding that keeps the order and keeps 0.
  The equation holds for every rounding.
\<close>

theorem resize_floor:
  assumes "\<not> migration_test s"
    and "con_inside_floating e (tree s) (focused (tree s)) = NULL"
    and "skip_stacked_tabbed (tree s) (focused (tree s)) = Some (Inr current1)"
    and "find_orientation (tree s)
           (if direction = ''left'' \<or> direction = ''right'' then HORIZ else VERT) current1 =
         Some (Inr current)"
    and "deref (tree s) current = Some c"
    and "deref (tree s) (c_parent c) = Some p"
    and "\<not> ((c_orientation p = HORIZ \<and> (direction = ''up'' \<or> direction = ''down'')) \<or>
            (c_orientation p = VERT \<and> (direction = ''left'' \<or> direction = ''right'')))"
    and "other = (if direction = ''up'' \<or> direction = ''left''
                  then c_nodes_prev c else c_nodes_next c)"
    and "deref (tree s) other = Some oc"
    and "other \<noteq> current"
    and "0 < con_num_children e (tree s) (c_parent c)"
  shows "(let ppt = (if way = ''shrink'' then atoi resize_ppt * - 1 else atoi resize_ppt);
              percentage =
                to_double e (1 / real_of_int (con_num_children e (tree s) (c_parent c)));
              c0 = (if c_percent c = 0 then percentage else c_percent c);
              o0 = (if c_percent oc = 0 then percentage else c_percent oc);
              delta = to_double e (real_of_int (sint ppt) / 100);
              new_c = to_double e (c0 + delta);
              new_o = to_double e (o0 - delta);
              applied = (definitelyGreaterThan e new_c (to_double e 0.05) DBL_EPSILON \<and>
                         definitelyGreaterThan e new_o (to_double e 0.05) DBL_EPSILON)
          in cmd_resize e m way direction resize_px resize_ppt s =
               Some (Inr (Some reply_success,
                 (cmd_MIGRATION_save_old_parameters m
                    [Some ''cmd_resize'', Some way, Some direction, Some resize_px,
                     Some resize_ppt] s)
                 \<lparr>tree := tree_render e
                    ((tree s)\<lparr>cons := (cons (tree s))
                       (current \<mapsto> c\<lparr>c_percent := (if applied then new_c else c0)\<rparr>,
                        other \<mapsto> oc\<lparr>c_percent := (if applied then new_o else o0)\<rparr>)\<rparr>)\<rparr>)) \<and>
             (applied \<and> rounding_monotone e \<longrightarrow>
                to_double e 0.05 < new_c \<and> to_double e 0.05 < new_o))"
proof -
  define ppt where "ppt = (if way = ''shrink'' then atoi resize_ppt * - 1 else atoi resize_ppt)"
  define percentage where
    "percentage = to_double e (1 / real_of_int (con_num_children e (tree s) (c_parent c)))"
  from assms(9) have other_set: "other \<noteq> NULL"
    by (auto simp: deref_def split: if_splits)
  with assms(8) have other_sel:
    "(if direction = ''up'' \<or> direction = ''left'' then c_nodes_prev c else c_nodes_next c) = other"
    "(if direction = ''up'' \<or> direction = ''left'' then c_nodes_prev c else c_nodes_next c) \<noteq> NULL"
    by simp_all
  have tiling: "resize_tiling e direction ppt (tree s) =
      (case resize_percents e percentage ppt current other (tree s) of
         Inl err \<Rightarrow> Some (Inl err) | Inr t' \<Rightarrow> Some (Inr (None, t')))"
  proof -
    have compat: "((c_orientation p = HORIZ \<and> (direction = ''up'' \<or> direction = ''down'')) \<or>
            (c_orientation p = VERT \<and> (direction = ''left'' \<or> direction = ''right''))) = False"
      using assms(7) by blast
    show ?thesis
      unfolding resize_tiling_def Let_def percentage_def
      by (simp only: assms(3-6) compat other_sel option.case sum.case if_False)
        (simp add: other_set)
  qed
  note eq = resize_percents_eq [where e = e and percentage = percentage and ppt = ppt,
      OF assms(5) assms(9) assms(10) [symmetric], unfolded Let_def]
  have cmd: "cmd_resize e m way direction resize_px resize_ppt s =
      (case resize_percents e percentage ppt current other (tree s) of
         Inl err \<Rightarrow> Some (Inl err)
       | Inr t' \<Rightarrow> Some (Inr (Some reply_success,
           (cmd_MIGRATION_save_old_parameters m
              [Some ''cmd_resize'', Some way, Some direction, Some resize_px, Some resize_ppt] s)
           \<lparr>tree := tree_render e t'\<rparr>)))"
    using assms(1,2) tiling
    by (simp add: cmd_resize_def Let_def ppt_def split: sum.splits)
  show ?thesis
    unfolding Let_def ppt_def [symmetric] percentage_def [symmetric] cmd eq
    by (auto intro: definitelyGreaterThan_floor)
qed

text \<open>
  The witness of C1: the two windows of the first tree at one half each, with exact
  arithmetic; 10 ppt are applied (0.6 and 0.4), 46 ppt are skipped.
\<close>

theorem resize_floor_witness:
  "\<not> migration_test state0 \<and>
   con_inside_floating plain_ext (tree state0) (focused (tree state0)) = NULL \<and>
   skip_stacked_tabbed (tree state0) (focused (tree state0)) = Some (Inr 3) \<and>
   find_orientation (tree state0) HORIZ 3 = Some (Inr 3) \<and>
   map_option c_parent (deref (tree state0) 3) = Some 2 \<and>
   map_option c_orientation (deref (tree state0) 2) = Some HORIZ \<and>
   map_option c_nodes_next (deref (tree state0) 3) = Some 4 \<and>
   deref (tree state0) 4 \<noteq> None \<and>
   con_num_children plain_ext (tree state0) 2 = 2 \<and>
   rounding_monotone plain_ext \<and>
   definitelyGreaterThan plain_ext (1 / 2 + 10 / 100) 0.05 DBL_EPSILON \<and>
   definitelyGreaterThan plain_ext (1 / 2 - 10 / 100) 0.05 DBL_EPSILON \<and>
   cmd_resize plain_ext match_init ''grow'' ''right'' ''10'' ''10'' state0 =
     Some (Inr (Some reply_success,
       (cmd_MIGRATION_save_old_parameters match_init
          [Some ''cmd_resize'', Some ''grow'', Some ''right'', Some ''10'', Some ''10''] state0)
       \<lparr>tree := tree0\<lparr>cons := (cons tree0)
            (3 \<mapsto> (the (deref tree0 3))\<lparr>c_percent := 3 / 5\<rparr>,
             4 \<mapsto> (the (deref tree0 4))\<lparr>c_percent := 2 / 5\<rparr>)\<rparr>\<rparr>)) \<and>
   \<not> definitelyGreaterThan plain_ext (1 / 2 - 46 / 100) 0.05 DBL_EPSILON \<and>
   cmd_resize plain_ext match_init ''grow'' ''right'' ''10'' ''46'' state0 =
     Some (Inr (Some reply_success,
       (cmd_MIGRATION_save_old_parameters match_init
          [Some ''cmd_resize'', Some ''grow'', Some ''right'', Some ''10'', Some ''46''] state0)
       \<lparr>tree := tree0\<lparr>cons := (cons tree0)
            (3 \<mapsto> (the (deref tree0 3))\<lparr>c_percent := 1 / 2\<rparr>,
             4 \<mapsto> (the (deref tree0 4))\<lparr>c_percent := 1 / 2\<rparr>)\<rparr>\<rparr>))"
proof -
  define c3 where "c3 = (mk_con CT_CON 2 NO_ORIENTATION (1 / 2) NULL 4)
                     \<lparr>c_mark := Some ''a'', c_window := Some (mk_window 11 ''term'')\<rparr>"
  define c4 where "c4 = (mk_con CT_CON 2 NO_ORIENTATION (1 / 2) 3 NULL)
                     \<lparr>c_mark := Some ''b'', c_window := Some (mk_window 12 ''xterm'')\<rparr>"
  define c2 where "c2 = mk_con CT_WORKSPACE 5 HORIZ 1 NULL NULL"
  have sel: "c_parent c3 = 2" "c_nodes_next c3 = 4" "c_percent c3 = 1 / 2" "c_percent c4 = 1 / 2"
    "c_orientation c2 = HORIZ"
    by (simp_all add: c3_def c4_def c2_def mk_con_def)
  have gt: "definitelyGreaterThan plain_ext (1 / 2 + 10 / 100) 0.05 DBL_EPSILON"
    "definitelyGreaterThan plain_ext (1 / 2 - 10 / 100) 0.05 DBL_EPSILON"
    "\<not> definitelyGreaterThan plain_ext (1 / 2 - 46 / 100) 0.05 DBL_EPSILON"
    by (simp_all add: definitelyGreaterThan_def DBL_EPSILON_def plain_arith)
  have h1: "\<not> migration_test state0"
    by (simp add: state0_facts)
  have h2: "con_inside_floating plain_ext (tree state0) (focused (tree state0)) = NULL"
    by (simp add: state0_facts tree0_focused tree0_tiling)
  have h3: "skip_stacked_tabbed (tree state0) (focused (tree state0)) = Some (Inr 3)"
    by (simp add: state0_facts tree0_focused tree0_skip)
  have h4: "find_orientation (tree state0)
       (if ''right'' = ''left'' \<or> ''right'' = ''right'' then HORIZ else VERT) 3 = Some (Inr 3)"
    by (simp add: state0_facts tree0_find)
  have h5: "deref (tree state0) 3 = Some c3"
    by (simp add: state0_facts tree0_deref c3_def)
  have h6: "deref (tree state0) (c_parent c3) = Some c2"
    by (simp add: state0_facts tree0_deref sel c2_def)
  have h7: "\<not> ((c_orientation c2 = HORIZ \<and> (''right'' = ''up'' \<or> ''right'' = ''down'')) \<or>
            (c_orientation c2 = VERT \<and> (''right'' = ''left'' \<or> ''right'' = ''right'')))"
    by (simp add: sel)
  have h8: "4 = (if ''right'' = ''up'' \<or> ''right'' = ''left''
                  then c_nodes_prev c3 else c_nodes_next c3)"
    by (simp add: sel)
  have h9: "deref (tree state0) 4 = Some c4"
    by (simp add: state0_facts tree0_deref c4_def)
  have h10: "(4 :: con_ptr) \<noteq> 3"
    by simp
  have h11: "0 < con_num_children plain_ext (tree state0) (c_parent c3)"
    by (simp add: state0_facts sel tree0_children)
  have arith: "to_double plain_ext x = x" for x
    by (simp add: plain_arith)
  have ppt: "real_of_int (sint (atoi ''10'')) = 10" "real_of_int (sint (atoi ''46'')) = 46"
    by (simp_all add: atoi_10)
  have grow: "''grow'' \<noteq> ''shrink''"
    by simp
  have applied: "cmd_resize plain_ext match_init ''grow'' ''right'' ''10'' ''10'' state0 =
     Some (Inr (Some reply_success,
       (cmd_MIGRATION_save_old_parameters match_init
          [Some ''cmd_resize'', Some ''grow'', Some ''right'', Some ''10'', Some ''10''] state0)
       \<lparr>tree := tree0\<lparr>cons := (cons tree0)
            (3 \<mapsto> c3\<lparr>c_percent := 3 / 5\<rparr>, 4 \<mapsto> c4\<lparr>c_percent := 2 / 5\<rparr>)\<rparr>\<rparr>))"
    using resize_floor [where e = plain_ext and m = match_init and way = "''grow''"
        and resize_px = "''10''" and resize_ppt = "''10''",
        OF h1 h2 h3 h4 h5 h6 h7 h8 h9 h10 h11]
      gt(1,2)
    unfolding Let_def arith sel if_not_P [OF grow] ppt
    by (simp add: state0_facts plain_render)
  have skipped: "cmd_resize plain_ext match_init ''grow'' ''right'' ''10'' ''46'' state0 =
     Some (Inr (Some reply_success,
       (cmd_MIGRATION_save_old_parameters match_init
          [Some ''cmd_resize'', Some ''grow'', Some ''right'', Some ''10'', Some ''46''] state0)
       \<lparr>tree := tree0\<lparr>cons := (cons tree0)
            (3 \<mapsto> c3\<lparr>c_percent := 1 / 2\<rparr>, 4 \<mapsto> c4\<lparr>c_percent := 1 / 2\<rparr>)\<rparr>\<rparr>))"
    using resize_floor [where e = plain_ext and m = match_init and way = "''grow''"
        and resize_px = "''10''" and resize_ppt = "''46''",
        OF h1 h2 h3 h4 h5 h6 h7 h8 h9 h10 h11]
      gt(3)
    unfolding Let_def arith sel if_not_P [OF grow] ppt
    by (simp add: state0_facts plain_render)
  have the3: "the (deref tree0 3) = c3" "the (deref tree0 4) = c4"
    using h5 h9 by (simp_all add: state0_facts)
  have facts: "map_option c_parent (deref (tree state0) 3) = Some 2"
    "map_option c_orientation (deref (tree state0) 2) = Some HORIZ"
    "map_option c_nodes_next (deref (tree state0) 3) = Some 4"
    "deref (tree state0) 4 \<noteq> None"
    "con_num_children plain_ext (tree state0) 2 = 2"
    "find_orientation (tree state0) HORIZ 3 = Some (Inr 3)"
    using h5 h6 h9 by (simp_all add: sel state0_facts tree0_children tree0_find)
  from h1 h2 h3 facts plain_rounding gt applied skipped show ?thesis
    unfolding the3 by simp
qed

subsection \<open>C2: the mark arm\<close>

text \<open>
  Claim C2 says that for a candidate with a mark, under a match whose mark predicate is
  set, the window predicates are never evaluated, even when the mark regex does not
  match.

  As stated this fails: the call of \<^verbatim>\<open>regex_matches\<close> is part of the condition of
  the second arm, so a candidate whose mark does not match takes the third arm. Window
  4 carries the mark b; under the match with the mark pattern a it takes the window arm,
  where the class predicate decides: \<^verbatim>\<open>cmd_criteria_match_windows\<close> keeps it in
  \<^verbatim>\<open>owindows\<close> for the class xterm and drops it for the class urxvt.
\<close>

theorem mark_exclusive_counterexample:
  "m_con_id match_mark_a = NULL \<and>
   m_mark match_mark_a = Some (Regex ''a'') \<and>
   map_option c_mark (deref tree0 4) = Some (Some ''b'') \<and>
   map_option c_window (deref tree0 4) = Some (Some (mk_window 12 ''xterm'')) \<and>
   \<not> regex_matches plain_ext (Regex ''a'') ''b'' \<and>
   criteria_arm plain_ext match_mark_a tree0 4 = Inr By_window \<and>
   owindow_matches plain_ext match_mark_a tree0 4 =
     Inr (match_matches_window plain_ext match_mark_a (mk_window 12 ''xterm'')) \<and>
   owindow_matches plain_ext match_mark_a tree0 4 = Inr True \<and>
   owindow_matches plain_ext (match_mark_a\<lparr>m_class := Some (Regex ''urxvt'')\<rparr>) tree0 4 =
     Inr False \<and>
   map_sum id owindows
     (cmd_criteria_match_windows plain_ext match_mark_a (state0\<lparr>owindows := [3, 4]\<rparr>)) =
     Inr [3, 4] \<and>
   map_sum id owindows
     (cmd_criteria_match_windows plain_ext (match_mark_a\<lparr>m_class := Some (Regex ''urxvt'')\<rparr>)
        (state0\<lparr>owindows := [3, 4]\<rparr>)) =
     Inr [3]"
  by (simp add: match_mark_a_def match_init_def criteria_arm_def owindow_matches_def
      cmd_criteria_match_windows_def Let_def state0_facts
      tree0_deref plain_ext_def plain_matcher_def regex_opt_matches_def mk_con_def mk_window_def)

text \<open>
  C2 as amended. \<^verbatim>\<open>cmd_criteria_match_windows\<close>, under a match without a container id
  whose mark predicate is set and with every candidate of \<^verbatim>\<open>owindows\<close> referring to a
  container, returns, and the new \<^verbatim>\<open>owindows\<close> is the old one, in its order, with
  exactly these candidates kept. A candidate that carries a mark which the mark regex
  matches takes the mark arm and is kept, with no window predicate evaluated. A
  candidate whose mark the regex does not match, or that carries no mark, takes the
  window arm: it is dropped without a window, and otherwise kept iff
  \<^verbatim>\<open>match_matches_window\<close> accepts its window. \<open>s1\<close> is the state after the capture
  of the stackframe, which leaves the tree and \<^verbatim>\<open>owindows\<close> as they are.
\<close>

theorem mark_arm:
  assumes "m_con_id m = NULL" and "m_mark m = Some re"
    and "\<forall>con \<in> set (owindows s). deref (tree s) con \<noteq> None"
  shows "cmd_criteria_match_windows e m s =
           Inr ((if migration_test s
                 then cmd_MIGRATION_save_new_parameters m [Some ''cmd_criteria_match_windows''] s
                 else cmd_MIGRATION_save_old_parameters m [Some ''cmd_criteria_match_windows''] s)
                \<lparr>owindows :=
                   filter (\<lambda>con. case deref (tree s) con of
                                   None \<Rightarrow> False
                                 | Some c \<Rightarrow>
                                     (case c_mark c of
                                        None \<Rightarrow>
                                          (case c_window c of
                                             None \<Rightarrow> False
                                           | Some w \<Rightarrow> match_matches_window e m w)
                                      | Some mark \<Rightarrow>
                                          if regex_matches e re mark then True
                                          else (case c_window c of
                                                  None \<Rightarrow> False
                                                | Some w \<Rightarrow> match_matches_window e m w)))
                     (owindows s)\<rparr>) \<and>
         (\<forall>con \<in> set (owindows s). \<forall>c mark.
            deref (tree s) con = Some c \<and> c_mark c = Some mark \<longrightarrow>
              criteria_arm e m (tree s) con =
                Inr (if regex_matches e re mark then By_mark else By_window))"
proof -
  let ?keep = "\<lambda>con. case deref (tree s) con of
                                   None \<Rightarrow> False
                                 | Some c \<Rightarrow>
                                     (case c_mark c of
                                        None \<Rightarrow>
                                          (case c_window c of
                                             None \<Rightarrow> False
                                           | Some w \<Rightarrow> match_matches_window e m w)
                                      | Some mark \<Rightarrow>
                                          if regex_matches e re mark then True
                                          else (case c_window c of
                                                  None \<Rightarrow> False
                                                | Some w \<Rightarrow> match_matches_window e m w))"
  have one: "owindow_matches e m (tree s) con = Inr (?keep con)"
    if "deref (tree s) con \<noteq> None" for con
    using that assms(1,2)
    by (auto simp: owindow_matches_def criteria_arm_def split: option.splits)
  have loop: "match_loop e m (tree s) ows = Inr (filter ?keep ows)"
    if "\<forall>con \<in> set ows. deref (tree s) con \<noteq> None" for ows
    using that
  proof (induction ows)
    case Nil
    show ?case by simp
  next
    case (Cons con ows)
    from Cons.prems have "deref (tree s) con \<noteq> None" by simp
    then have "owindow_matches e m (tree s) con = Inr (?keep con)" by (rule one)
    moreover from Cons have "match_loop e m (tree s) ows = Inr (filter ?keep ows)" by simp
    ultimately show ?case by simp
  qed
  have frames: "tree (cmd_MIGRATION_save_new_parameters m ps s) = tree s"
    "owindows (cmd_MIGRATION_save_new_parameters m ps s) = owindows s" for ps
    by (simp_all add: cmd_MIGRATION_save_new_parameters_def)
  have resolver: "cmd_criteria_match_windows e m s =
           Inr ((if migration_test s
                 then cmd_MIGRATION_save_new_parameters m [Some ''cmd_criteria_match_windows''] s
                 else cmd_MIGRATION_save_old_parameters m [Some ''cmd_criteria_match_windows''] s)
                \<lparr>owindows := filter ?keep (owindows s)\<rparr>)"
    using loop [OF assms(3)]
    by (simp add: cmd_criteria_match_windows_def Let_def frames)
  have arms: "criteria_arm e m (tree s) con =
                Inr (if regex_matches e re mark then By_mark else By_window)"
    if "deref (tree s) con = Some c" and "c_mark c = Some mark" for con c mark
    using that assms(1,2) by (simp add: criteria_arm_def)
  from resolver arms show ?thesis by blast
qed

text \<open>
  The witness of C2: under the mark pattern a and the class urxvt, with windows 3 and 4
  in \<^verbatim>\<open>owindows\<close>, window 3 (mark a) takes the mark arm and is kept though its class is
  term, and window 4 (mark b) takes the window arm and is dropped.
\<close>

theorem mark_arm_witness:
  "m_con_id (match_mark_a\<lparr>m_class := Some (Regex ''urxvt'')\<rparr>) = NULL \<and>
   m_mark (match_mark_a\<lparr>m_class := Some (Regex ''urxvt'')\<rparr>) = Some (Regex ''a'') \<and>
   deref tree0 3 \<noteq> None \<and> deref tree0 4 \<noteq> None \<and>
   map_option c_mark (deref tree0 3) = Some (Some ''a'') \<and>
   map_option c_mark (deref tree0 4) = Some (Some ''b'') \<and>
   regex_matches plain_ext (Regex ''a'') ''a'' \<and>
   \<not> regex_matches plain_ext (Regex ''a'') ''b'' \<and>
   cmd_criteria_match_windows plain_ext (match_mark_a\<lparr>m_class := Some (Regex ''urxvt'')\<rparr>)
       (state0\<lparr>owindows := [3, 4]\<rparr>) =
     Inr ((cmd_MIGRATION_save_old_parameters (match_mark_a\<lparr>m_class := Some (Regex ''urxvt'')\<rparr>)
             [Some ''cmd_criteria_match_windows''] (state0\<lparr>owindows := [3, 4]\<rparr>))
          \<lparr>owindows := [3]\<rparr>) \<and>
   criteria_arm plain_ext (match_mark_a\<lparr>m_class := Some (Regex ''urxvt'')\<rparr>) tree0 3 =
     Inr By_mark \<and>
   criteria_arm plain_ext (match_mark_a\<lparr>m_class := Some (Regex ''urxvt'')\<rparr>) tree0 4 =
     Inr By_window"
  using mark_arm [of "match_mark_a\<lparr>m_class := Some (Regex ''urxvt'')\<rparr>" "Regex ''a''"
      "state0\<lparr>owindows := [3, 4]\<rparr>" plain_ext]
  by (simp add: match_mark_a_def match_init_def state0_facts tree0_deref plain_ext_def
      plain_matcher_def regex_opt_matches_def mk_con_def mk_window_def)

subsection \<open>C3: the empty match\<close>

text \<open>
  Claim C3 says that every command with an empty match works on exactly the focused
  container, never on the full collection and never on nothing.

  As stated this fails: \<^verbatim>\<open>cmd_layout\<close> and \<^verbatim>\<open>cmd_focus\<close> do not use
  \<^verbatim>\<open>HANDLE_EMPTY_MATCH\<close>. After \<^verbatim>\<open>cmd_criteria_init\<close>, with the focus on window 3,
  \<^verbatim>\<open>cmd_layout\<close> sets the layout of the workspace 2, the parent of the focused
  window, and leaves window 3 as it is, while \<^verbatim>\<open>owindows\<close> still holds all
  containers; \<^verbatim>\<open>cmd_focus\<close> works on no container and replies with a failure.
\<close>

theorem empty_match_counterexample:
  "match_is_empty match_init \<and> focused (tree state0) = 3 \<and> owindows state0 = [5, 2, 3, 4] \<and>
   cmd_layout plain_ext match_init ''stacked'' state0 =
     Inr (Some reply_success,
          (cmd_MIGRATION_save_old_parameters match_init [Some ''cmd_layout'', Some ''stacked'']
             state0)
          \<lparr>tree := con_set_layout plain_ext 2 L_STACKED tree0\<rparr>) \<and>
   map_option c_layout (cons (con_set_layout plain_ext 2 L_STACKED tree0) 2) = Some L_STACKED \<and>
   map_option c_layout (cons tree0 2) = Some L_DEFAULT \<and>
   cons (con_set_layout plain_ext 2 L_STACKED tree0) 3 = cons tree0 3 \<and>
   cmd_focus plain_ext match_init state0 =
     Inr (Some reply_focus_unspecified,
          cmd_MIGRATION_save_old_parameters match_init [Some ''cmd_focus''] state0)"
  by (simp add: match_init_empty state0_facts tree0_focused cmd_layout_def cmd_focus_def Let_def
      requested_layout_def tree0_deref plain_render mk_con_def in_fullscreen_def tree0_cons
      plain_set_layout cons_update_con)

text \<open>
  C3 as amended. \<^verbatim>\<open>HANDLE_EMPTY_MATCH\<close> with an empty match makes \<^verbatim>\<open>owindows\<close> the
  one-element list of the focused container, whatever it held before, and leaves the
  tree as it is. The handlers \<^verbatim>\<open>cmd_fullscreen\<close>, \<^verbatim>\<open>cmd_floating\<close> and
  \<^verbatim>\<open>cmd_move_scratchpad\<close>, which apply the macro, when they run with the empty match:
  where \<^verbatim>\<open>focused\<close> refers to a container they call their collaborator on the focused
  container once and on no other container, render the tree and reply with success;
  where \<^verbatim>\<open>focused\<close> refers to no container the log line of the loop reads through it
  and the handler crashes.
\<close>

theorem empty_match_focused:
  assumes "match_is_empty m"
  shows "owindows (HANDLE_EMPTY_MATCH m s) = [focused (tree s)] \<and>
         tree (HANDLE_EMPTY_MATCH m s) = tree s \<and>
         (\<not> migration_test s \<and> deref (tree s) (focused (tree s)) \<noteq> None \<longrightarrow>
            cmd_fullscreen e m fullscreen_mode s =
              Inr (Some reply_success,
               (cmd_MIGRATION_save_old_parameters m
                  [Some ''cmd_fullscreen'',
                   Some (case fullscreen_mode of None \<Rightarrow> ''output'' | Some str \<Rightarrow> str)] s)
               \<lparr>owindows := [focused (tree s)],
                 tree := tree_render e
                   (con_toggle_fullscreen e (focused (tree s))
                      (if fullscreen_mode = Some ''global'' then CF_GLOBAL else CF_OUTPUT)
                      (tree s))\<rparr>) \<and>
            cmd_floating e m floating_mode s =
              Inr (Some reply_success,
               (cmd_MIGRATION_save_old_parameters m [Some ''cmd_floating'', Some floating_mode] s)
               \<lparr>owindows := [focused (tree s)],
                 tree := tree_render e
                   ((if floating_mode = ''toggle'' then toggle_floating_mode e
                     else if floating_mode = ''enable'' then floating_enable e
                     else floating_disable e) (focused (tree s)) False (tree s))\<rparr>) \<and>
            cmd_move_scratchpad e m s =
              Inr (Some reply_success,
               (cmd_MIGRATION_save_old_parameters m [Some ''cmd_move_scratchpad''] s)
               \<lparr>owindows := [focused (tree s)],
                 tree := tree_render e (scratchpad_move e (focused (tree s)) (tree s))\<rparr>)) \<and>
         (\<not> migration_test s \<and> deref (tree s) (focused (tree s)) = None \<longrightarrow>
            cmd_fullscreen e m fullscreen_mode s = Inl Segfault \<and>
            cmd_floating e m floating_mode s = Inl Segfault \<and>
            cmd_move_scratchpad e m s = Inl Segfault)"
proof -
  have macro: "HANDLE_EMPTY_MATCH m s' = s'\<lparr>owindows := [focused (tree s')]\<rparr>" for s'
    using assms by (simp add: HANDLE_EMPTY_MATCH_def)
  have logged: "foreach_logged body [focused (tree s)] (tree s) =
      (if deref (tree s) (focused (tree s)) = None then Inl Segfault
       else Inr (body (focused (tree s)) (tree s)))" for body
    by (simp split: option.splits)
  have fullscreen_some: "cmd_fullscreen e m fullscreen_mode s =
              Inr (Some reply_success,
               (cmd_MIGRATION_save_old_parameters m
                  [Some ''cmd_fullscreen'',
                   Some (case fullscreen_mode of None \<Rightarrow> ''output'' | Some str \<Rightarrow> str)] s)
               \<lparr>owindows := [focused (tree s)],
                 tree := tree_render e
                   (con_toggle_fullscreen e (focused (tree s))
                      (if fullscreen_mode = Some ''global'' then CF_GLOBAL else CF_OUTPUT)
                      (tree s))\<rparr>)"
    if "\<not> migration_test s" and "deref (tree s) (focused (tree s)) \<noteq> None"
    by (cases fullscreen_mode)
      (simp_all add: cmd_fullscreen_def Let_def macro logged that del: foreach_logged.simps)
  have floating_some: "cmd_floating e m floating_mode s =
              Inr (Some reply_success,
               (cmd_MIGRATION_save_old_parameters m [Some ''cmd_floating'', Some floating_mode] s)
               \<lparr>owindows := [focused (tree s)],
                 tree := tree_render e
                   ((if floating_mode = ''toggle'' then toggle_floating_mode e
                     else if floating_mode = ''enable'' then floating_enable e
                     else floating_disable e) (focused (tree s)) False (tree s))\<rparr>)"
    if "\<not> migration_test s" and "deref (tree s) (focused (tree s)) \<noteq> None"
    by (simp add: cmd_floating_def Let_def macro logged that del: foreach_logged.simps)
  have scratchpad_some: "cmd_move_scratchpad e m s =
              Inr (Some reply_success,
               (cmd_MIGRATION_save_old_parameters m [Some ''cmd_move_scratchpad''] s)
               \<lparr>owindows := [focused (tree s)],
                 tree := tree_render e (scratchpad_move e (focused (tree s)) (tree s))\<rparr>)"
    if "\<not> migration_test s" and "deref (tree s) (focused (tree s)) \<noteq> None"
    by (simp add: cmd_move_scratchpad_def Let_def macro logged that del: foreach_logged.simps)
  have crash: "cmd_fullscreen e m fullscreen_mode s = Inl Segfault"
    "cmd_floating e m floating_mode s = Inl Segfault"
    "cmd_move_scratchpad e m s = Inl Segfault"
    if "\<not> migration_test s" and "deref (tree s) (focused (tree s)) = None"
    by (simp_all add: cmd_fullscreen_def cmd_floating_def cmd_move_scratchpad_def Let_def macro
        logged that del: foreach_logged.simps)
  from macro [of s] fullscreen_some floating_some scratchpad_some crash
  show ?thesis by simp
qed

text \<open>
  The witness of C3: on the first tree, with \<^verbatim>\<open>owindows\<close> holding all four
  containers, the empty match leaves the focused window 3 alone in \<^verbatim>\<open>owindows\<close>;
  with \<^verbatim>\<open>focused\<close> the null pointer the handlers crash.
\<close>

theorem empty_match_focused_witness:
  "match_is_empty match_init \<and> \<not> migration_test state0 \<and>
   deref (tree state0) (focused (tree state0)) \<noteq> None \<and>
   owindows state0 = [5, 2, 3, 4] \<and>
   owindows (HANDLE_EMPTY_MATCH match_init state0) = [3] \<and>
   cmd_fullscreen plain_ext match_init None state0 =
     Inr (Some reply_success,
      (cmd_MIGRATION_save_old_parameters match_init [Some ''cmd_fullscreen'', Some ''output'']
         state0)
      \<lparr>owindows := [3], tree := con_toggle_fullscreen plain_ext 3 CF_OUTPUT tree0\<rparr>) \<and>
   cmd_move_scratchpad plain_ext match_init state0 =
     Inr (Some reply_success,
      (cmd_MIGRATION_save_old_parameters match_init [Some ''cmd_move_scratchpad''] state0)
      \<lparr>owindows := [3], tree := scratchpad_move plain_ext 3 tree0\<rparr>) \<and>
   \<not> migration_test (initial (tree0\<lparr>focused := NULL\<rparr>)) \<and>
   deref (tree0\<lparr>focused := NULL\<rparr>) NULL = None \<and>
   cmd_fullscreen plain_ext match_init None (initial (tree0\<lparr>focused := NULL\<rparr>)) =
     Inl Segfault \<and>
   cmd_floating plain_ext match_init ''toggle'' (initial (tree0\<lparr>focused := NULL\<rparr>)) =
     Inl Segfault"
  using empty_match_focused [of match_init state0 plain_ext None "''toggle''"]
    empty_match_focused [of match_init "initial (tree0\<lparr>focused := NULL\<rparr>)" plain_ext None
      "''toggle''"]
  by (simp add: match_init_empty state0_facts tree0_focused tree0_cons plain_render
      initial_def deref_def)

subsection \<open>C4: the container id\<close>

text \<open>
  Claim C4: under a match whose container id is set, a candidate is kept iff it is
  that container; every candidate takes the first arm, whatever the tree, the regex
  engine and the matcher are, so no mark and no window predicate is evaluated. The
  new \<^verbatim>\<open>owindows\<close> is the old one filtered by identity.
\<close>

theorem con_id_exclusive:
  assumes "m_con_id m \<noteq> NULL"
  shows "cmd_criteria_match_windows e m s =
           Inr ((if migration_test s
                 then cmd_MIGRATION_save_new_parameters m [Some ''cmd_criteria_match_windows''] s
                 else cmd_MIGRATION_save_old_parameters m [Some ''cmd_criteria_match_windows''] s)
                \<lparr>owindows := filter (\<lambda>con. m_con_id m = con) (owindows s)\<rparr>) \<and>
         (\<forall>t con. criteria_arm e m t con = Inr By_con_id \<and>
                   owindow_matches e m t con = Inr (m_con_id m = con))"
  using assms
  by (simp add: cmd_criteria_match_windows_def match_loop_con_id Let_def owindow_matches_def
      criteria_arm_def cmd_MIGRATION_save_new_parameters_def cmd_MIGRATION_save_old_parameters_def)

text \<open>
  The witness of C4: a match with the container id 4, a class that no window has and
  the mark of window 3 keeps window 4 only.
\<close>

theorem con_id_exclusive_witness:
  "m_con_id match_con4 \<noteq> NULL \<and>
   cmd_criteria_match_windows plain_ext match_con4 state0 =
     Inr ((cmd_MIGRATION_save_old_parameters match_con4 [Some ''cmd_criteria_match_windows'']
             state0)\<lparr>owindows := [4]\<rparr>) \<and>
   criteria_arm plain_ext match_con4 tree0 3 = Inr By_con_id \<and>
   owindow_matches plain_ext match_con4 tree0 3 = Inr False"
  using con_id_exclusive [of match_con4 plain_ext state0]
  by (simp add: match_con4_def match_init_def state0_facts)

subsection \<open>C5: resizing against the orientation\<close>

text \<open>
  Claim C5: when the parent that the two walks resolve is split horizontally and the
  direction is up or down, or it is split vertically and the direction is left or
  right, \<^verbatim>\<open>cmd_resize\<close> returns the failure reply and changes no container: the
  tree is the one it started with. The handler runs (the migration test is not
  capturing) on a container that is not inside a floating one.
\<close>

theorem resize_wrong_direction:
  assumes "\<not> migration_test s"
    and "con_inside_floating e (tree s) (focused (tree s)) = NULL"
    and "skip_stacked_tabbed (tree s) (focused (tree s)) = Some (Inr current1)"
    and "find_orientation (tree s)
           (if direction = ''left'' \<or> direction = ''right'' then HORIZ else VERT) current1 =
         Some (Inr current)"
    and "deref (tree s) current = Some c"
    and "deref (tree s) (c_parent c) = Some p"
    and "(c_orientation p = HORIZ \<and> (direction = ''up'' \<or> direction = ''down'')) \<or>
         (c_orientation p = VERT \<and> (direction = ''left'' \<or> direction = ''right''))"
  shows "cmd_resize e m way direction resize_px resize_ppt s =
           Some (Inr (Some reply_sucess_false,
             cmd_MIGRATION_save_old_parameters m
               [Some ''cmd_resize'', Some way, Some direction, Some resize_px, Some resize_ppt] s)) \<and>
         tree (cmd_MIGRATION_save_old_parameters m
               [Some ''cmd_resize'', Some way, Some direction, Some resize_px, Some resize_ppt] s) =
           tree s"
proof -
  have "resize_tiling e direction ppt (tree s) = Some (Inr (Some reply_sucess_false, tree s))"
    for ppt
    using assms(3-7) by (simp add: resize_tiling_def Let_def)
  with assms(1,2) show ?thesis
    by (simp add: cmd_resize_def Let_def)
qed

text \<open>
  The witness of C5: growing upwards from window 3 of the first tree resolves the
  workspace 2, whose parent is split horizontally; shrinking to the left in the tree
  that is split vertically resolves the workspace 2, whose parent is split vertically.
\<close>

theorem resize_wrong_direction_witness:
  "\<not> migration_test state0 \<and>
   con_inside_floating plain_ext (tree state0) (focused (tree state0)) = NULL \<and>
   skip_stacked_tabbed (tree state0) (focused (tree state0)) = Some (Inr 3) \<and>
   find_orientation (tree state0) VERT 3 = Some (Inr 2) \<and>
   map_option c_parent (deref (tree state0) 2) = Some 5 \<and>
   map_option c_orientation (deref (tree state0) 5) = Some HORIZ \<and>
   cmd_resize plain_ext match_init ''grow'' ''up'' ''10'' ''10'' state0 =
     Some (Inr (Some reply_sucess_false,
       cmd_MIGRATION_save_old_parameters match_init
         [Some ''cmd_resize'', Some ''grow'', Some ''up'', Some ''10'', Some ''10''] state0)) \<and>
   tree (cmd_MIGRATION_save_old_parameters match_init
         [Some ''cmd_resize'', Some ''grow'', Some ''up'', Some ''10'', Some ''10''] state0) = tree0 \<and>
   find_orientation vert_tree HORIZ 3 = Some (Inr 2) \<and>
   map_option c_orientation (deref vert_tree 5) = Some VERT \<and>
   cmd_resize plain_ext match_init ''shrink'' ''left'' ''10'' ''10'' (state0\<lparr>tree := vert_tree\<rparr>) =
     Some (Inr (Some reply_sucess_false,
       cmd_MIGRATION_save_old_parameters match_init
         [Some ''cmd_resize'', Some ''shrink'', Some ''left'', Some ''10'', Some ''10'']
         (state0\<lparr>tree := vert_tree\<rparr>)))"
  using resize_wrong_direction [of state0 plain_ext 3 "''up''" 2
      "mk_con CT_WORKSPACE 5 HORIZ 1 NULL NULL" "mk_con CT_OUTPUT NULL HORIZ 1 NULL NULL"
      match_init "''grow''" "''10''" "''10''"]
    resize_wrong_direction [of "state0\<lparr>tree := vert_tree\<rparr>" plain_ext 3 "''left''" 2
      "mk_con CT_WORKSPACE 5 VERT 1 NULL NULL" "mk_con CT_OUTPUT NULL VERT 1 NULL NULL"
      match_init "''shrink''" "''10''" "''10''"]
  by (simp add: state0_facts tree0_focused tree0_tiling tree0_skip tree0_find tree0_deref
      vert_focused vert_tiling vert_skip vert_find vert_deref mk_con_def)

subsection \<open>C6: validation\<close>

text \<open>
  Claim C6: \<^verbatim>\<open>cmd_MIGRATION_validate\<close> reports success iff the two sequences have equal
  length and the frames at every position agree as specified (identity fields by value,
  regex predicates by presence and pattern text, argument lists by length and element
  by element with \<^verbatim>\<open>NULL\<close> against a string a mismatch). When the lengths are equal
  and \<open>i\<close> is the first position where the frames disagree, the report names frame
  \<open>i\<close>; when the lengths differ, the report names the two lengths. The nagbar is
  started exactly when the report is not the success.
\<close>

theorem validate_agrees:
  "(fst (cmd_MIGRATION_validate r s) = OK \<longleftrightarrow>
      length (new_stackframes s) = length (old_stackframes s) \<and>
      (\<forall>i<length (new_stackframes s).
         spec_frames_agree (new_stackframes s ! i) (old_stackframes s ! i))) \<and>
   (length (new_stackframes s) = length (old_stackframes s) \<and>
    i < length (new_stackframes s) \<and>
    \<not> spec_frames_agree (new_stackframes s ! i) (old_stackframes s ! i) \<and>
    (\<forall>k<i. spec_frames_agree (new_stackframes s ! k) (old_stackframes s ! k)) \<longrightarrow>
      failed_frame (fst (cmd_MIGRATION_validate r s)) = Some i) \<and>
   (length (new_stackframes s) \<noteq> length (old_stackframes s) \<longrightarrow>
      fst (cmd_MIGRATION_validate r s) =
        FAILED_count (length (new_stackframes s)) (length (old_stackframes s))) \<and>
   snd (cmd_MIGRATION_validate r s) =
     (if fst (cmd_MIGRATION_validate r s) = OK then s else cmd_MIGRATION_start_nagbar r s)"
proof -
  have fst_eq: "fst (cmd_MIGRATION_validate r s) = validate_report s"
    by (simp add: cmd_MIGRATION_validate_def split: report.splits)
  have snd_eq: "snd (cmd_MIGRATION_validate r s) =
      (if validate_report s = OK then s else cmd_MIGRATION_start_nagbar r s)"
    by (simp add: cmd_MIGRATION_validate_def split: report.splits)
  show ?thesis
    unfolding fst_eq snd_eq
    using compare_frames_OK [of "new_stackframes s" "old_stackframes s" 0]
      compare_frames_first [of "new_stackframes s" "old_stackframes s" i 0]
    by (auto simp: validate_report_def Let_def)
qed

text \<open>
  The witness of C6: two sequences of two frames that differ in the second argument of
  the second frame fail at frame 1; with equal second frames they pass.
\<close>

theorem validate_agrees_witness:
  "length (new_stackframes differing_state) = length (old_stackframes differing_state) \<and>
   (1 :: nat) < length (new_stackframes differing_state) \<and>
   spec_frames_agree (new_stackframes differing_state ! 0) (old_stackframes differing_state ! 0) \<and>
   \<not> spec_frames_agree (new_stackframes differing_state ! 1) (old_stackframes differing_state ! 1) \<and>
   fst (cmd_MIGRATION_validate 4711 differing_state) \<noteq> OK \<and>
   failed_frame (fst (cmd_MIGRATION_validate 4711 differing_state)) = Some 1 \<and>
   snd (cmd_MIGRATION_validate 4711 differing_state) =
     cmd_MIGRATION_start_nagbar 4711 differing_state \<and>
   fst (cmd_MIGRATION_validate 4711 (differing_state\<lparr>old_stackframes := [frame_x, frame_x]\<rparr>)) = OK"
proof -
  have agree: "spec_frames_agree frame_x frame_x" "\<not> spec_frames_agree frame_x frame_y"
    by (simp_all add: spec_frames_agree_def frame_x_def frame_y_def spec_regex_equal_def
        spec_arg_equal_def match_mark_a_def match_init_def)
  have frames: "new_stackframes differing_state = [frame_x, frame_x]"
    "old_stackframes differing_state = [frame_x, frame_y]"
    by (simp_all add: differing_state_def)
  have all_agree:
    "\<forall>i<length [frame_x, frame_x]. spec_frames_agree ([frame_x, frame_x] ! i) ([frame_x, frame_x] ! i)"
    by (auto simp: less_Suc_eq agree)
  have first_agree:
    "\<forall>k<1. spec_frames_agree ([frame_x, frame_x] ! k) ([frame_x, frame_y] ! k)"
    by (simp add: agree)
  have not_all:
    "\<not> (\<forall>i<length [frame_x, frame_x]. spec_frames_agree ([frame_x, frame_x] ! i) ([frame_x, frame_y] ! i))"
    using agree(2) by (auto intro!: exI [of _ 1])
  show ?thesis
    using validate_agrees [of 4711 differing_state 1]
      validate_agrees [of 4711 "differing_state\<lparr>old_stackframes := [frame_x, frame_x]\<rparr>" 0]
      all_agree first_agree not_all
    by (auto simp: frames agree)
qed

subsection \<open>C7: enabling twice\<close>

text \<open>
  Claim C7: from any state, \<^verbatim>\<open>cmd_MIGRATION_enable\<close> leaves both stackframe queues
  empty (and the test switched on), and calling it twice gives the state that calling
  it once gives.
\<close>

theorem enable_idempotent:
  "old_stackframes (cmd_MIGRATION_enable s) = [] \<and>
   new_stackframes (cmd_MIGRATION_enable s) = [] \<and>
   migration_test (cmd_MIGRATION_enable s) \<and>
   cmd_MIGRATION_enable (cmd_MIGRATION_enable s) = cmd_MIGRATION_enable s"
  by (simp add: cmd_MIGRATION_enable_def clear_stack_Nil)

text \<open>The witness of C7: a state with two frames on either queue.\<close>

theorem enable_idempotent_witness:
  "old_stackframes (cmd_MIGRATION_enable differing_state) = [] \<and>
   new_stackframes (cmd_MIGRATION_enable differing_state) = [] \<and>
   old_stackframes differing_state \<noteq> [] \<and>
   cmd_MIGRATION_enable (cmd_MIGRATION_enable differing_state) =
     cmd_MIGRATION_enable differing_state"
  using enable_idempotent [of differing_state]
  by (simp add: differing_state_def)

subsection \<open>C8: one nagbar at a time\<close>

text \<open>
  Claim C8: in every state that the harness reaches from its initial state, at most one
  i3-nagbar process is running; while \<^verbatim>\<open>migration_pid\<close> holds a pid,
  \<^verbatim>\<open>cmd_MIGRATION_start_nagbar\<close> (and so a validation that fails) returns without a
  \<^verbatim>\<open>fork\<close> and leaves the state as it is; and the only event that resets
  \<^verbatim>\<open>migration_pid\<close> to -1 is the observed normal exit of the process it holds.
\<close>

theorem single_nagbar:
  "length (nagbar_procs (run evs (initial t))) \<le> 1 \<and>
   (migration_pid (run evs (initial t)) \<noteq> - 1 \<longrightarrow>
      cmd_MIGRATION_start_nagbar r (run evs (initial t)) = run evs (initial t) \<and>
      snd (cmd_MIGRATION_validate r (run evs (initial t))) = run evs (initial t)) \<and>
   (migration_pid (run evs (initial t)) \<noteq> - 1 \<and>
    migration_pid (step ev (run evs (initial t))) = - 1 \<longrightarrow>
      (\<exists>exitcode. ev = Child_exit (migration_pid (run evs (initial t))) (Exited exitcode)))"
proof -
  have inv: "nagbar_inv (run evs (initial t))"
    by (simp add: run_inv initial_inv)
  then have "length (nagbar_procs (run evs (initial t))) \<le> 1"
    by (auto simp: nagbar_inv_def)
  then show ?thesis
    using step_resets [OF inv] start_nagbar_active validate_active by blast
qed

text \<open>
  The witness of C8: a capture on the new stack only fails the validation and starts
  the nagbar 4711; a second start changes nothing; its normal exit resets the pid, its
  death by a signal does not.
\<close>

theorem single_nagbar_witness:
  "migration_pid (run failing_run (initial tree0)) = 4711 \<and>
   nagbar_procs (run failing_run (initial tree0)) = [4711] \<and>
   cmd_MIGRATION_start_nagbar 4712 (run failing_run (initial tree0)) =
     run failing_run (initial tree0) \<and>
   snd (cmd_MIGRATION_validate 4712 (run failing_run (initial tree0))) =
     run failing_run (initial tree0) \<and>
   migration_pid (step (Child_exit 4711 (Exited 0)) (run failing_run (initial tree0))) = - 1 \<and>
   nagbar_procs (step (Child_exit 4711 (Exited 0)) (run failing_run (initial tree0))) = [] \<and>
   migration_pid (step (Child_exit 4711 (Signaled 9)) (run failing_run (initial tree0))) = 4711"
proof -
  have r: "run failing_run (initial tree0) =
      (initial tree0)\<lparr>new_stackframes := [\<lparr>sf_match = match_init, sf_args = [Some ''cmd_nop'']\<rparr>],
        migration_pid := 4711, child_watchers := [4711], nagbar_procs := [4711]\<rparr>"
    by (simp add: failing_run_def initial_def cmd_MIGRATION_enable_def cmd_MIGRATION_disable_def
        cmd_MIGRATION_save_new_parameters_def match_copy_def cmd_MIGRATION_validate_def
        validate_report_def cmd_MIGRATION_start_nagbar_def fork_def Let_def)
  show ?thesis
    using single_nagbar [of failing_run tree0 4712 "Child_exit 4711 (Exited 0)"]
    unfolding r
    by (simp add: initial_def child_exit_def nagbar_exited_def Let_def)
qed

subsection \<open>C9: focus without criteria\<close>

text \<open>
  Claim C9 says that \<^verbatim>\<open>cmd_focus\<close> with an empty match returns the failure reply
  whose payload asks for a window or container, and changes nothing.

  As stated this fails where the focused container is a window in fullscreen mode:
  the guard before the test of the match returns the plain failure reply, which has no
  such payload.
\<close>

theorem focus_empty_match_counterexample:
  "match_is_empty match_init \<and> \<not> migration_test fullscreen_state \<and>
   in_fullscreen (tree fullscreen_state) = Inr True \<and>
   cmd_focus plain_ext match_init fullscreen_state =
     Inr (Some reply_sucess_false,
          cmd_MIGRATION_save_old_parameters match_init [Some ''cmd_focus''] fullscreen_state) \<and>
   reply_sucess_false \<noteq> reply_focus_unspecified"
proof -
  have fs: "in_fullscreen (tree fullscreen_state) = Inr True"
    by (simp add: in_fullscreen_def fullscreen_state_def focused_update_con cons_update_con
        tree0_focused tree0_cons mk_con_def)
  have mt: "\<not> migration_test fullscreen_state"
    by (simp add: fullscreen_state_def state0_facts)
  have "reply_sucess_false \<noteq> reply_focus_unspecified"
    by (simp add: reply_sucess_false_def reply_focus_unspecified_def)
  then show ?thesis
    by (simp add: match_init_empty mt fs cmd_focus_def Let_def)
qed

text \<open>
  C9 as amended. When the handler runs with an empty match, \<^verbatim>\<open>cmd_focus\<close> does not
  fall back to the focused container: the tree, the focus and \<^verbatim>\<open>owindows\<close> stay as
  they are (the state changes by the captured frame only), and the reply is a failure:
  the plain failure reply when the focused container is not a workspace and is in
  fullscreen mode, and else the reply whose payload asks to specify a window or
  container.
\<close>

theorem focus_empty_match:
  assumes "match_is_empty m" and "\<not> migration_test s" and "in_fullscreen (tree s) = Inr b"
  shows "cmd_focus e m s =
           Inr (Some (if b then reply_sucess_false else reply_focus_unspecified),
                cmd_MIGRATION_save_old_parameters m [Some ''cmd_focus''] s) \<and>
         tree (cmd_MIGRATION_save_old_parameters m [Some ''cmd_focus''] s) = tree s \<and>
         owindows (cmd_MIGRATION_save_old_parameters m [Some ''cmd_focus''] s) = owindows s"
  using assms by (simp add: cmd_focus_def Let_def)

text \<open>The witness of C9: the first tree, where no container is in fullscreen mode.\<close>

theorem focus_empty_match_witness:
  "match_is_empty match_init \<and> \<not> migration_test state0 \<and>
   in_fullscreen (tree state0) = Inr False \<and>
   cmd_focus plain_ext match_init state0 =
     Inr (Some reply_focus_unspecified,
          cmd_MIGRATION_save_old_parameters match_init [Some ''cmd_focus''] state0) \<and>
   tree (cmd_MIGRATION_save_old_parameters match_init [Some ''cmd_focus''] state0) = tree0 \<and>
   focused (tree (cmd_MIGRATION_save_old_parameters match_init [Some ''cmd_focus''] state0)) = 3"
  using focus_empty_match [of match_init state0 False plain_ext]
  by (simp add: match_init_empty state0_facts in_fullscreen_def tree0_focused tree0_cons
      mk_con_def)

subsection \<open>C10: layout with and without criteria\<close>

text \<open>
  Claim C10: when \<^verbatim>\<open>cmd_layout\<close> runs, the emptiness of the match decides the branch:
  with an empty match the layout is set on the parent of the focused container; with
  a match that is not empty it is set on every container of \<^verbatim>\<open>owindows\<close>, in order,
  and on none when \<^verbatim>\<open>owindows\<close> is empty (the tree is only rendered).
\<close>

theorem layout_branch:
  assumes "\<not> migration_test s"
  shows "(match_is_empty m \<and> deref (tree s) (focused (tree s)) = Some f \<longrightarrow>
            cmd_layout e m layout_str s =
              Inr (Some reply_success,
                   (cmd_MIGRATION_save_old_parameters m
                      [Some ''cmd_layout'',
                       Some (if layout_str = ''stacking'' then ''stacked'' else layout_str)] s)
                   \<lparr>tree := tree_render e
                      (con_set_layout e (c_parent f)
                         (requested_layout
                            (if layout_str = ''stacking'' then ''stacked'' else layout_str))
                         (tree s))\<rparr>)) \<and>
         (\<not> match_is_empty m \<longrightarrow>
            cmd_layout e m layout_str s =
              Inr (Some reply_success,
                   (cmd_MIGRATION_save_old_parameters m
                      [Some ''cmd_layout'',
                       Some (if layout_str = ''stacking'' then ''stacked'' else layout_str)] s)
                   \<lparr>tree := tree_render e
                      (foldl (\<lambda>t con. con_set_layout e con
                                (requested_layout
                                   (if layout_str = ''stacking'' then ''stacked'' else layout_str)) t)
                         (tree s) (owindows s))\<rparr>)) \<and>
         (\<not> match_is_empty m \<and> owindows s = [] \<longrightarrow>
            cmd_layout e m layout_str s =
              Inr (Some reply_success,
                   (cmd_MIGRATION_save_old_parameters m
                      [Some ''cmd_layout'',
                       Some (if layout_str = ''stacking'' then ''stacked'' else layout_str)] s)
                   \<lparr>tree := tree_render e (tree s)\<rparr>))"
  using assms by (simp add: cmd_layout_def Let_def foreach_owindow_def)

text \<open>
  The witness of C10: the empty match sets the layout of the workspace 2; a match with
  criteria sets it on the windows 4 and 3 of \<^verbatim>\<open>owindows\<close>, and on nothing when
  \<^verbatim>\<open>owindows\<close> is empty.
\<close>

theorem layout_branch_witness:
  "\<not> migration_test state0 \<and> match_is_empty match_init \<and>
   map_option c_parent (deref (tree state0) (focused (tree state0))) = Some 2 \<and>
   cmd_layout plain_ext match_init ''stacking'' state0 =
     Inr (Some reply_success,
          (cmd_MIGRATION_save_old_parameters match_init [Some ''cmd_layout'', Some ''stacked'']
             state0)
          \<lparr>tree := con_set_layout plain_ext 2 L_STACKED tree0\<rparr>) \<and>
   \<not> match_is_empty match_con4 \<and>
   cmd_layout plain_ext match_con4 ''tabbed'' (state0\<lparr>owindows := [4, 3]\<rparr>) =
     Inr (Some reply_success,
          (cmd_MIGRATION_save_old_parameters match_con4 [Some ''cmd_layout'', Some ''tabbed'']
             (state0\<lparr>owindows := [4, 3]\<rparr>))
          \<lparr>tree := con_set_layout plain_ext 3 L_TABBED
                     (con_set_layout plain_ext 4 L_TABBED tree0)\<rparr>) \<and>
   cmd_layout plain_ext match_con4 ''tabbed'' (state0\<lparr>owindows := []\<rparr>) =
     Inr (Some reply_success,
          (cmd_MIGRATION_save_old_parameters match_con4 [Some ''cmd_layout'', Some ''tabbed'']
             (state0\<lparr>owindows := []\<rparr>))
          \<lparr>tree := tree0\<rparr>)"
  using layout_branch [of state0 match_init "the (deref tree0 3)" plain_ext "''stacking''"]
    layout_branch [of "state0\<lparr>owindows := [4, 3]\<rparr>" match_con4 "the (deref tree0 3)" plain_ext
      "''tabbed''"]
    layout_branch [of "state0\<lparr>owindows := []\<rparr>" match_con4 "the (deref tree0 3)" plain_ext
      "''tabbed''"]
  by (simp add: match_init_empty match_con4_nonempty state0_facts tree0_focused tree0_deref
      plain_render requested_layout_def mk_con_def)

end
